theory Spec2Isabelle
  imports Complex_Main "HOL-Library.Sublist"
begin

text \<open>
  A model of the GIAS data fetcher (\<open>src/fetch-data.ts\<close>): the content validation
  (\<open>validateCSVContent\<close>, \<open>isHtmlContent\<close>, \<open>isValidCsv\<close>), the size-change check
  (\<open>checkFileSizeChange\<close>), the download of one file (\<open>downloadFile\<close>) and the loop
  over the file templates (\<open>fetchData\<close>). Pure functions are HOL functions; the
  functions that fetch and touch files pass an explicit world along and return
  either the error they throw or their result.
\<close>

section \<open>Text primitives of the host language\<close>

text \<open>
  Text is modelled as the list of its UTF-8 bytes (\<open>string\<close>). The markers, the
  newline and the comma that the validator looks for are ASCII, so searching and
  splitting on the bytes agrees with searching and splitting on the characters.
\<close>

text \<open>\<open>s.includes(p)\<close>: does \<open>p\<close> occur in \<open>s\<close> as a contiguous substring?\<close>

fun str_includes :: "string \<Rightarrow> string \<Rightarrow> bool" where
  "str_includes [] p = (p = [])"
| "str_includes (c # cs) p = (prefix p (c # cs) \<or> str_includes cs p)"

text \<open>\<open>s.split(sep)\<close> for a one-character separator: the pieces between the
  separators, an empty text giving the single empty piece.\<close>

fun str_split :: "char \<Rightarrow> string \<Rightarrow> string list" where
  "str_split sep [] = [[]]"
| "str_split sep (c # cs) =
     (if c = sep then [] # str_split sep cs
      else (case str_split sep cs of
              [] \<Rightarrow> [[c]]
            | l # ls \<Rightarrow> (c # l) # ls))"

text \<open>\<open>xs.slice(0, n)\<close> is \<^const>\<open>take\<close>; \<open>xs.some(p)\<close> is \<^const>\<open>list_ex\<close>.\<close>

text \<open>\<open>xs.join(sep)\<close>, the inverse of splitting; the program does not call it, the
  properties of \<open>str_split\<close> below are stated with it.\<close>

fun str_join :: "char \<Rightarrow> string list \<Rightarrow> string" where
  "str_join sep [] = []"
| "str_join sep [l] = l"
| "str_join sep (l # ls) = l @ sep # str_join sep ls"

definition newline :: char where
  "newline = CHR 0x0A"

section \<open>Content validation\<close>

record ValidationResult =
  isValid :: bool
  reason :: "string option"

definition htmlPatterns :: "string list" where
  "htmlPatterns = [''<!DOCTYPE'', ''<html'', ''<body'', ''<head'']"

definition validateCSVContent :: "string \<Rightarrow> ValidationResult" where
  "validateCSVContent content =
     (if list_ex (\<lambda>pattern. str_includes content pattern) htmlPatterns
      then \<lparr>isValid = False, reason = Some ''Content contains HTML markup''\<rparr>
      else
        let lines = take 3 (str_split newline content) in
        if \<not> list_ex (\<lambda>line. str_includes line '','') lines
        then \<lparr>isValid = False, reason = Some ''Content lacks comma separators''\<rparr>
        else \<lparr>isValid = True, reason = None\<rparr>)"

definition isHtmlContent :: "string \<Rightarrow> bool" where
  "isHtmlContent content =
     list_ex (\<lambda>pattern. str_includes content pattern) htmlPatterns"

definition isValidCsv :: "string \<Rightarrow> bool" where
  "isValidCsv content =
     (let lines = take 3 (str_split newline content) in
      list_ex (\<lambda>line. str_includes line '','') lines)"

section \<open>Numbers and their rendering\<close>

text \<open>
  File sizes are byte counts, natural numbers below \<open>2 ^ 53\<close>, which the host's
  double-precision numbers hold exactly; their difference and their comparison are
  exact as well. A quotient and a product are rounded to the nearest double: the
  rounding is a parameter \<open>rnd\<close> of the functions that compute with it, so that what
  is proved for every rounding function holds for the real one. The real one is
  \<open>round_double\<close> below, with which \<open>downloadFile\<close> calls the size check.
  Thresholds are arbitrary finite numbers, modelled as reals.
\<close>

text \<open>
  Rounding to the nearest double, ties to the even significand: a number other than
  zero lies in one binade \<open>2 ^ e \<le> |x| < 2 ^ (e + 1)\<close>, where the doubles are the
  multiples of \<open>2 ^ (e - 52)\<close>. Overflow and subnormal numbers are left out: the
  quotient of two sizes below \<open>2 ^ 53\<close> and its product with 100 are far from both.
\<close>

fun bit_length :: "nat \<Rightarrow> nat" where
  "bit_length n = (if n = 0 then 0 else Suc (bit_length (n div 2)))"

definition pow2 :: "int \<Rightarrow> real" where
  "pow2 e = (if 0 \<le> e then 2 ^ nat e else 1 / 2 ^ nat (- e))"

definition binade :: "real \<Rightarrow> int" where
  "binade x =
     (if 1 \<le> x then int (bit_length (nat \<lfloor>x\<rfloor>)) - 1
      else - int (bit_length (nat \<lceil>1 / x\<rceil> - 1)))"

definition round_half_even :: "real \<Rightarrow> int" where
  "round_half_even x =
     (let f = \<lfloor>x\<rfloor> in
      if x - of_int f < 1 / 2 then f
      else if x - of_int f > 1 / 2 then f + 1
      else if even f then f else f + 1)"

definition round_double :: "real \<Rightarrow> real" where
  "round_double x =
     (if x = 0 then 0
      else let u = pow2 (binade \<bar>x\<bar> - 52)
           in sgn x * of_int (round_half_even (\<bar>x\<bar> / u)) * u)"

fun showNat :: "nat \<Rightarrow> string" where
  "showNat n =
     (if n < 10 then [''0123456789'' ! n]
      else showNat (n div 10) @ [''0123456789'' ! (n mod 10)])"

text \<open>\<open>x.toFixed(2)\<close>: the sign, then the integer \<open>n\<close> nearest to \<open>|x| * 100\<close>
  (the larger one of two equally near) written with two decimals. Numbers of
  \<open>10 ^ 21\<close> and more, which the host prints in exponent form, do not occur for
  sizes below \<open>2 ^ 53\<close>.\<close>

definition toFixed2 :: "real \<Rightarrow> string" where
  "toFixed2 x =
     (let n = nat \<lfloor>\<bar>x\<bar> * 100 + 1 / 2\<rfloor> in
      (if x < 0 then ''-'' else []) @
      showNat (n div 100) @ ''.'' @
      [''0123456789'' ! (n mod 100 div 10), ''0123456789'' ! (n mod 10)])"

section \<open>Size-change check\<close>

text \<open>\<open>sizeDifferencePercent\<close>, \<open>changeDirection\<close> and the warning text are the three
  local values of \<open>checkFileSizeChange\<close>, defined on their own so that theorems can
  name them.\<close>

record SizeChange =
  changed :: bool
  warning :: "string option"

definition sizeDifferencePercent :: "(real \<Rightarrow> real) \<Rightarrow> nat \<Rightarrow> nat \<Rightarrow> real" where
  "sizeDifferencePercent rnd newSize oldSize =
     \<bar>rnd (rnd ((real newSize - real oldSize) / real oldSize) * 100)\<bar>"

definition changeDirection :: "nat \<Rightarrow> nat \<Rightarrow> string" where
  "changeDirection newSize oldSize =
     (if newSize > oldSize then ''increased'' else ''decreased'')"

definition warningText :: "string \<Rightarrow> string \<Rightarrow> real \<Rightarrow> nat \<Rightarrow> nat \<Rightarrow> string" where
  "warningText fileName direction percent oldSize newSize =
     ''WARNING: File '' @ fileName @ '' has '' @ direction @ '' in size by '' @
     toFixed2 percent @ ''% (from '' @ showNat oldSize @ '' to '' @ showNat newSize @
     '' bytes)''"

definition checkFileSizeChange ::
  "(real \<Rightarrow> real) \<Rightarrow> nat \<Rightarrow> nat \<Rightarrow> real \<Rightarrow> string \<Rightarrow> SizeChange" where
  "checkFileSizeChange rnd newSize oldSize threshold fileName =
     (if oldSize = 0 then \<lparr>changed = False, warning = None\<rparr>
      else
        if sizeDifferencePercent rnd newSize oldSize > threshold
        then \<lparr>changed = True,
              warning = Some (warningText fileName (changeDirection newSize oldSize)
                (sizeDifferencePercent rnd newSize oldSize) oldSize newSize)\<rparr>
        else \<lparr>changed = False, warning = None\<rparr>)"

section \<open>The outside world: transport and file system\<close>

text \<open>
  Everything outside the program is one explicit state. A path, as the program
  spells it, is resolved to the location of the file it names: two paths that name
  the same file, such as \<open>./out.csv\<close> and \<open>out.csv\<close>, resolve to the same location.
  What links do beyond that (deleting one of two names of a file keeps the file) is
  not modelled. A location holds a file with its content, or a directory, or
  nothing. Every call
  that leaves the program is appended to a trace. A file-system call can fail for
  reasons the program does not control (no space, no permission, a missing parent
  directory): a fault schedule, indexed by the number of calls made so far, says for
  each call whether it fails, and for a write whether the failure leaves a partly
  written file behind. Console output is not part of the model, but the conversion
  to text of a value that is printed is, since it can throw.
\<close>

text \<open>A thrown value: \<open>Error s\<close> is a value whose conversion to text gives \<open>s\<close> (an
  \<open>Error\<close> object, a text, a number); \<open>Unprintable\<close> is a value whose conversion to
  text throws (a \<open>Symbol\<close>, an object without prototype).\<close>

datatype error = Error string | Unprintable

datatype node = File string | Dir nat

datatype io_call =
    Fetch string
  | ReadText
  | Access string
  | Stat string
  | WriteFile string string
  | Rename string string
  | Unlink string
  | Mkdir string

datatype fault = NoFault | Fails | FailsPartial string

record world =
  resolve :: "string \<Rightarrow> string"
  nodes :: "string \<rightharpoonup> node"
  trace :: "io_call list"
  faults :: "nat \<Rightarrow> io_call \<Rightarrow> fault"
  now :: int

text \<open>An action either throws (\<open>Inl\<close>) or returns (\<open>Inr\<close>), and leaves a world.\<close>

type_synonym 'a io = "world \<Rightarrow> (error + 'a) \<times> world"

definition io_return :: "'a \<Rightarrow> 'a io" where
  "io_return x = (\<lambda>w. (Inr x, w))"

definition io_throw :: "error \<Rightarrow> 'a io" where
  "io_throw e = (\<lambda>w. (Inl e, w))"

definition io_bind :: "'a io \<Rightarrow> ('a \<Rightarrow> 'b io) \<Rightarrow> 'b io" where
  "io_bind m f = (\<lambda>w. case m w of (Inl e, w') \<Rightarrow> (Inl e, w') | (Inr x, w') \<Rightarrow> f x w')"

text \<open>\<open>try { m } catch (e) { h e }\<close>\<close>

definition io_catch :: "'a io \<Rightarrow> (error \<Rightarrow> 'a io) \<Rightarrow> 'a io" where
  "io_catch m h = (\<lambda>w. case m w of (Inl e, w') \<Rightarrow> h e w' | (Inr x, w') \<Rightarrow> (Inr x, w'))"

text \<open>The interpolation \<open>${e}\<close> of a caught value in a template literal.\<close>

definition toText :: "error \<Rightarrow> string io" where
  "toText e =
     (case e of
        Error s \<Rightarrow> io_return s
      | Unprintable \<Rightarrow> io_throw (Error ''TypeError: Cannot convert a Symbol value to a string''))"

definition fault_of :: "world \<Rightarrow> io_call \<Rightarrow> fault" where
  "fault_of w c = faults w (length (trace w)) c"

definition logged :: "io_call \<Rightarrow> world \<Rightarrow> world" where
  "logged c w = w\<lparr>trace := trace w @ [c]\<rparr>"

text \<open>\<open>fs.access(p)\<close>\<close>

definition fs_access :: "string \<Rightarrow> unit io" where
  "fs_access p = (\<lambda>w.
     (if fault_of w (Access p) \<noteq> NoFault then Inl (Error ''EIO'')
      else case nodes w (resolve w p) of
             None \<Rightarrow> Inl (Error ''ENOENT'')
           | Some n \<Rightarrow> Inr (),
      logged (Access p) w))"

text \<open>\<open>fs.access(p).then(() => true).catch(() => false)\<close>\<close>

definition fs_exists :: "string \<Rightarrow> bool io" where
  "fs_exists p = io_catch (io_bind (fs_access p) (\<lambda>_. io_return True)) (\<lambda>_. io_return False)"

text \<open>\<open>(await fs.stat(p)).size\<close>\<close>

definition fs_stat_size :: "string \<Rightarrow> nat io" where
  "fs_stat_size p = (\<lambda>w.
     (if fault_of w (Stat p) \<noteq> NoFault then Inl (Error ''EIO'')
      else case nodes w (resolve w p) of
             None \<Rightarrow> Inl (Error ''ENOENT'')
           | Some (File c) \<Rightarrow> Inr (length c)
           | Some (Dir n) \<Rightarrow> Inr n,
      logged (Stat p) w))"

text \<open>\<open>fs.writeFile(p, content)\<close>: creates the file or replaces its whole content.\<close>

definition fs_writeFile :: "string \<Rightarrow> string \<Rightarrow> unit io" where
  "fs_writeFile p content = (\<lambda>w.
     let w1 = logged (WriteFile p content) w in
     case nodes w (resolve w p) of
       Some (Dir n) \<Rightarrow> (Inl (Error ''EISDIR''), w1)
     | _ \<Rightarrow>
        (case fault_of w (WriteFile p content) of
           NoFault \<Rightarrow> (Inr (), w1\<lparr>nodes := (nodes w)(resolve w p \<mapsto> File content)\<rparr>)
         | Fails \<Rightarrow> (Inl (Error ''EIO''), w1)
         | FailsPartial part \<Rightarrow>
             (Inl (Error ''EIO''), w1\<lparr>nodes := (nodes w)(resolve w p \<mapsto> File part)\<rparr>)))"

text \<open>\<open>fs.rename(a, b)\<close>: the file at \<open>a\<close> replaces whatever file is at \<open>b\<close>, in one
  step; nothing changes when both are the same location. The program only ever
  renames a file it has just written; renaming a directory is modelled as failing.\<close>

definition fs_rename :: "string \<Rightarrow> string \<Rightarrow> unit io" where
  "fs_rename a b = (\<lambda>w.
     let w1 = logged (Rename a b) w in
     if fault_of w (Rename a b) \<noteq> NoFault then (Inl (Error ''EIO''), w1)
     else case nodes w (resolve w a) of
            None \<Rightarrow> (Inl (Error ''ENOENT''), w1)
          | Some (Dir n) \<Rightarrow> (Inl (Error ''EISDIR''), w1)
          | Some (File c) \<Rightarrow>
             (case nodes w (resolve w b) of
                Some (Dir n) \<Rightarrow> (Inl (Error ''EISDIR''), w1)
              | _ \<Rightarrow> (Inr (), w1\<lparr>nodes := (nodes w)(resolve w a := None,
                                                       resolve w b \<mapsto> File c)\<rparr>)))"

text \<open>\<open>fs.unlink(p)\<close>\<close>

definition fs_unlink :: "string \<Rightarrow> unit io" where
  "fs_unlink p = (\<lambda>w.
     let w1 = logged (Unlink p) w in
     if fault_of w (Unlink p) \<noteq> NoFault then (Inl (Error ''EIO''), w1)
     else case nodes w (resolve w p) of
            None \<Rightarrow> (Inl (Error ''ENOENT''), w1)
          | Some (Dir n) \<Rightarrow> (Inl (Error ''EISDIR''), w1)
          | Some (File c) \<Rightarrow> (Inr (), w1\<lparr>nodes := (nodes w)(resolve w p := None)\<rparr>))"

text \<open>\<open>fs.mkdir(p, { recursive: true })\<close>; parent directories are not modelled.\<close>

definition fs_mkdir :: "string \<Rightarrow> unit io" where
  "fs_mkdir p = (\<lambda>w.
     let w1 = logged (Mkdir p) w in
     if fault_of w (Mkdir p) \<noteq> NoFault then (Inl (Error ''EIO''), w1)
     else case nodes w (resolve w p) of
            None \<Rightarrow> (Inr (), w1\<lparr>nodes := (nodes w)(resolve w p \<mapsto> Dir 4096)\<rparr>)
          | Some (Dir n) \<Rightarrow> (Inr (), w1)
          | Some (File c) \<Rightarrow> (Inl (Error ''EEXIST''), w1))"

text \<open>
  The transport is an arbitrary function of the host, possibly with state of its own:
  its answer may depend on the moment of the call, given as the number of calls made
  so far. It throws any value or returns a response, whose \<open>text()\<close> (the field
  \<open>bodyText\<close>) in turn throws any value or returns the body.
\<close>

record Response =
  ok :: bool
  status :: int
  statusText :: string
  bodyText :: "error + string"

type_synonym transport = "nat \<Rightarrow> string \<Rightarrow> error + Response"

definition call_fetch :: "transport \<Rightarrow> string \<Rightarrow> Response io" where
  "call_fetch fetchFn url = (\<lambda>w. (fetchFn (length (trace w)) url, logged (Fetch url) w))"

definition response_text :: "Response \<Rightarrow> string io" where
  "response_text response = (\<lambda>w. (bodyText response, logged ReadText w))"

text \<open>
  What the program takes from its runtime and its libraries: \<open>path.join\<close>,
  \<open>path.basename\<close>, the \<open>format\<close> of date-fns (which throws on an invalid date or
  pattern; the pattern is absent when the configuration holds \<open>undefined\<close>), the
  working directory and the ambient \<open>fetch\<close>. They are parameters: every theorem
  holds for each of them.
\<close>

record platform =
  path_join :: "string \<Rightarrow> string \<Rightarrow> string"
  path_basename :: "string \<Rightarrow> string"
  format_date :: "int \<Rightarrow> string option \<Rightarrow> error + string"
  cwd :: string
  global_fetch :: transport

section \<open>Configuration\<close>

record FileTemplate =
  urlTemplate :: string
  outputFile :: string

record DownloadResult =
  downloadedFiles :: "string list"
  skippedFiles :: "string list"
  fileSizeWarnings :: "string list"

record FetcherConfig =
  outputDir :: string
  sizeChangeThresholdPercent :: real
  baseUrl :: string
  dateFormat :: string

definition DEFAULT_CONFIG :: "platform \<Rightarrow> FetcherConfig" where
  "DEFAULT_CONFIG P =
     \<lparr>outputDir = path_join P (cwd P) ''data'',
      sizeChangeThresholdPercent = 20,
      baseUrl = ''https://ea-edubase-backend-prod.azurewebsites.net/edubase'',
      dateFormat = ''yyyyMMdd''\<rparr>"

definition DEFAULT_URL_TEMPLATES :: "FileTemplate list" where
  "DEFAULT_URL_TEMPLATES =
     [\<lparr>urlTemplate = ''{baseUrl}/edubasealldata{0}.csv'',
       outputFile = ''edubasealldata.csv''\<rparr>,
      \<lparr>urlTemplate = ''{baseUrl}/links_edubasealldata{0}.csv'',
       outputFile = ''links_edubasealldata.csv''\<rparr>,
      \<lparr>urlTemplate = ''{baseUrl}/edubaseallstatefunded{0}.csv'',
       outputFile = ''edubaseallstatefunded.csv''\<rparr>,
      \<lparr>urlTemplate = ''{baseUrl}/links_edubaseallstatefunded{0}.csv'',
       outputFile = ''links_edubaseallstatefunded.csv''\<rparr>,
      \<lparr>urlTemplate = ''{baseUrl}/edubaseallacademiesandfree{0}.csv'',
       outputFile = ''edubaseallacademiesandfree.csv''\<rparr>,
      \<lparr>urlTemplate = ''{baseUrl}/links_edubaseallacademiesandfree{0}.csv'',
       outputFile = ''links_edubaseallacademiesandfree.csv''\<rparr>,
      \<lparr>urlTemplate = ''{baseUrl}/grouplinks_edubaseallacademiesandfree{0}.csv'',
       outputFile = ''grouplinks_edubaseallacademiesandfree.csv''\<rparr>,
      \<lparr>urlTemplate = ''{baseUrl}/edubaseallchildrencentre{0}.csv'',
       outputFile = ''edubaseallchildrencentre.csv''\<rparr>,
      \<lparr>urlTemplate = ''{baseUrl}/academiesmatmembership{0}.csv'',
       outputFile = ''academiesmatmembership.csv''\<rparr>,
      \<lparr>urlTemplate = ''{baseUrl}/governancealldata{0}.csv'',
       outputFile = ''governancealldata.csv''\<rparr>,
      \<lparr>urlTemplate = ''{baseUrl}/governancematdata{0}.csv'',
       outputFile = ''governancematdata.csv''\<rparr>,
      \<lparr>urlTemplate = ''{baseUrl}/governanceacaddata{0}.csv'',
       outputFile = ''governanceacaddata.csv''\<rparr>,
      \<lparr>urlTemplate = ''{baseUrl}/governanceladata{0}.csv'',
       outputFile = ''governanceladata.csv''\<rparr>]"

section \<open>Downloading one file\<close>

record FileResult =
  success :: bool
  warning :: "string option"

text \<open>A text counts as true in a condition unless it is empty.\<close>

definition truthy :: "string option \<Rightarrow> bool" where
  "truthy s = (case s of None \<Rightarrow> False | Some t \<Rightarrow> t \<noteq> [])"

text \<open>The body of the \<open>try\<close> block of \<open>downloadFile\<close>: its two early returns and its
  final return are results, everything thrown inside it is an \<open>Inl\<close>. The size
  check computes in double precision.\<close>

definition downloadFile_try ::
  "platform \<Rightarrow> string \<Rightarrow> string \<Rightarrow> string \<Rightarrow> real \<Rightarrow> transport \<Rightarrow> FileResult io" where
  "downloadFile_try P url outputPath tempPath sizeChangeThreshold fetchFn =
     io_bind (call_fetch fetchFn url) (\<lambda>response.
     if \<not> ok response then io_return \<lparr>success = False, warning = None\<rparr>
     else
     io_bind (response_text response) (\<lambda>content.
     let validation = validateCSVContent content in
     if \<not> isValid validation then io_return \<lparr>success = False, warning = None\<rparr>
     else
     io_bind (fs_writeFile tempPath content) (\<lambda>_.
     io_bind (fs_stat_size tempPath) (\<lambda>newFileSize.
     io_bind (fs_exists outputPath) (\<lambda>outputExists.
     io_bind
       (if outputExists then
          io_bind (fs_stat_size outputPath) (\<lambda>existingFileSize.
          let sizeChange = checkFileSizeChange round_double newFileSize
                 existingFileSize sizeChangeThreshold (path_basename P outputPath)
          in io_return (if truthy (SizeChange.warning sizeChange)
                        then SizeChange.warning sizeChange else None))
        else io_return None) (\<lambda>sizeWarning.
     io_bind (fs_rename tempPath outputPath) (\<lambda>_.
     io_return \<lparr>success = True, warning = sizeWarning\<rparr>)))))))"

text \<open>The cleanup of the \<open>catch\<close> block: delete the temporary file if the existence
  check finds it; a failure of the deletion is caught in turn. Both ways out return
  the same result. The inner \<open>catch\<close> prints the message of the error of the file
  system, a text, or else a fixed text; neither conversion can throw.\<close>

definition downloadFile_cleanup :: "string \<Rightarrow> FileResult io" where
  "downloadFile_cleanup tempPath =
     io_catch
       (io_bind (fs_exists tempPath) (\<lambda>tempExists.
        io_bind (if tempExists then fs_unlink tempPath else io_return ()) (\<lambda>_.
        io_return \<lparr>success = False, warning = None\<rparr>)))
       (\<lambda>cleanupError. io_return \<lparr>success = False, warning = None\<rparr>)"

text \<open>The last two parameters have defaults, used when the argument is \<open>undefined\<close>
  (\<open>None\<close>).\<close>

definition thresholdOrDefault :: "platform \<Rightarrow> real option \<Rightarrow> real" where
  "thresholdOrDefault P sizeChangeThreshold =
     (case sizeChangeThreshold of
        None \<Rightarrow> sizeChangeThresholdPercent (DEFAULT_CONFIG P)
      | Some t \<Rightarrow> t)"

definition fetchOrDefault :: "platform \<Rightarrow> transport option \<Rightarrow> transport" where
  "fetchOrDefault P fetchFn = (case fetchFn of None \<Rightarrow> global_fetch P | Some f \<Rightarrow> f)"

text \<open>\<open>downloadFile\<close>: the \<open>catch\<close> block first prints the caught value, converting it
  to text outside of any inner \<open>try\<close>, then cleans up.\<close>

definition downloadFile ::
  "platform \<Rightarrow> string \<Rightarrow> string \<Rightarrow> string \<Rightarrow> real option \<Rightarrow> transport option \<Rightarrow>
   FileResult io" where
  "downloadFile P url outputPath tempPath sizeChangeThreshold fetchFn =
     io_catch
       (downloadFile_try P url outputPath tempPath
          (thresholdOrDefault P sizeChangeThreshold) (fetchOrDefault P fetchFn))
       (\<lambda>error. io_bind (toText error) (\<lambda>_. downloadFile_cleanup tempPath))"

section \<open>Fetching all files\<close>

text \<open>A key of the \<open>Partial<FetcherConfig>\<close> a caller passes: absent, present with
  the value \<open>undefined\<close>, or present with a value.\<close>

datatype 'a key = Absent | Undefined | Given 'a

record PartialFetcherConfig =
  outputDir_key :: "string key"
  sizeChangeThresholdPercent_key :: "real key"
  baseUrl_key :: "string key"
  dateFormat_key :: "string key"

text \<open>The object \<open>{ ...DEFAULT_CONFIG, ...options.config }\<close>: a key present in the
  override wins, also with the value \<open>undefined\<close> (\<open>None\<close>).\<close>

record MergedConfig =
  outputDir_val :: "string option"
  sizeChangeThresholdPercent_val :: "real option"
  baseUrl_val :: "string option"
  dateFormat_val :: "string option"

definition spreadKey :: "'a \<Rightarrow> 'a key \<Rightarrow> 'a option" where
  "spreadKey d k = (case k of Absent \<Rightarrow> Some d | Undefined \<Rightarrow> None | Given v \<Rightarrow> Some v)"

definition mergeConfig :: "FetcherConfig \<Rightarrow> PartialFetcherConfig option \<Rightarrow> MergedConfig" where
  "mergeConfig d override =
     (case override of
        None \<Rightarrow>
         \<lparr>outputDir_val = Some (outputDir d),
          sizeChangeThresholdPercent_val = Some (sizeChangeThresholdPercent d),
          baseUrl_val = Some (baseUrl d),
          dateFormat_val = Some (dateFormat d)\<rparr>
      | Some c \<Rightarrow>
         \<lparr>outputDir_val = spreadKey (outputDir d) (outputDir_key c),
          sizeChangeThresholdPercent_val =
            spreadKey (sizeChangeThresholdPercent d) (sizeChangeThresholdPercent_key c),
          baseUrl_val = spreadKey (baseUrl d) (baseUrl_key c),
          dateFormat_val = spreadKey (dateFormat d) (dateFormat_key c)\<rparr>)"

text \<open>The \<open>options\<close> of \<open>fetchData\<close>: \<open>date\<close>, \<open>config\<close>, \<open>urlTemplates\<close>, \<open>fetchFn\<close>.\<close>

record FetchOptions =
  opt_date :: "int option"
  opt_config :: "PartialFetcherConfig option"
  opt_urlTemplates :: "FileTemplate list option"
  opt_fetchFn :: "transport option"

text \<open>\<open>s.replace(pattern, replacement)\<close> with a text pattern replaces the first
  occurrence only. In the replacement, \<open>$$\<close> stands for a dollar sign, \<open>$&\<close> for the
  matched text, a dollar sign with a backquote for the text before the match and a
  dollar sign with an apostrophe for the text after it; every other character
  stands for itself.\<close>

fun expandReplacement :: "string \<Rightarrow> string \<Rightarrow> string \<Rightarrow> string \<Rightarrow> string" where
  "expandReplacement matched before after [] = []"
| "expandReplacement matched before after [c] = [c]"
| "expandReplacement matched before after (c # d # rest) =
     (if c = CHR ''$'' \<and> d = CHR ''$'' then
        CHR ''$'' # expandReplacement matched before after rest
      else if c = CHR ''$'' \<and> d = CHR ''&'' then
        matched @ expandReplacement matched before after rest
      else if c = CHR ''$'' \<and> d = CHR 0x60 then
        before @ expandReplacement matched before after rest
      else if c = CHR ''$'' \<and> d = CHR 0x27 then
        after @ expandReplacement matched before after rest
      else c # expandReplacement matched before after (d # rest))"

fun str_replace_from :: "string \<Rightarrow> string \<Rightarrow> string \<Rightarrow> string \<Rightarrow> string" where
  "str_replace_from before [] pattern replacement =
     (if pattern = [] then expandReplacement [] before [] replacement else [])"
| "str_replace_from before (c # cs) pattern replacement =
     (if prefix pattern (c # cs) then
        expandReplacement pattern before (drop (length pattern) (c # cs)) replacement @
        drop (length pattern) (c # cs)
      else c # str_replace_from (before @ [c]) cs pattern replacement)"

definition str_replace :: "string \<Rightarrow> string \<Rightarrow> string \<Rightarrow> string" where
  "str_replace s pattern replacement = str_replace_from [] s pattern replacement"

text \<open>The loop over the templates. The first half of its body computes the paths
  and the URL of a template and downloads the file; the second half appends to one
  of the three lists. \<open>path.join\<close> throws for a directory that is \<open>undefined\<close>; a
  base URL that is \<open>undefined\<close> is inserted as the text \<open>undefined\<close>.\<close>

definition downloadTemplate ::
  "platform \<Rightarrow> MergedConfig \<Rightarrow> string \<Rightarrow> transport \<Rightarrow> FileTemplate \<Rightarrow>
   (string \<times> FileResult) io" where
  "downloadTemplate P config dateStr fetchFn template =
     (case outputDir_val config of
        None \<Rightarrow> io_throw (Error ''ERR_INVALID_ARG_TYPE'')
      | Some dir \<Rightarrow>
         let outputPath = path_join P dir (outputFile template);
             tempPath = outputPath @ ''.tmp'';
             urlWithBase = str_replace (urlTemplate template) ''{baseUrl}''
               (case baseUrl_val config of None \<Rightarrow> ''undefined'' | Some b \<Rightarrow> b);
             url = str_replace urlWithBase ''{0}'' dateStr
         in io_bind
              (downloadFile P url outputPath tempPath
                 (sizeChangeThresholdPercent_val config) (Some fetchFn))
              (\<lambda>result. io_return (outputPath, result)))"

definition recordOutcome ::
  "DownloadResult \<Rightarrow> FileTemplate \<Rightarrow> string \<Rightarrow> FileResult \<Rightarrow> DownloadResult" where
  "recordOutcome acc template outputPath result =
     (if success result then
        acc\<lparr>downloadedFiles := downloadedFiles acc @ [outputPath],
            fileSizeWarnings :=
              (if truthy (warning result)
               then fileSizeWarnings acc @ [the (warning result)]
               else fileSizeWarnings acc)\<rparr>
      else acc\<lparr>skippedFiles := skippedFiles acc @ [outputFile template]\<rparr>)"

fun processTemplates ::
  "platform \<Rightarrow> MergedConfig \<Rightarrow> string \<Rightarrow> transport \<Rightarrow> FileTemplate list \<Rightarrow>
   DownloadResult \<Rightarrow> DownloadResult io" where
  "processTemplates P config dateStr fetchFn [] acc w = (Inr acc, w)"
| "processTemplates P config dateStr fetchFn (template # rest) acc w =
     (case downloadTemplate P config dateStr fetchFn template w of
        (Inl e, w1) \<Rightarrow> (Inl e, w1)
      | (Inr (outputPath, result), w1) \<Rightarrow>
          processTemplates P config dateStr fetchFn rest
            (recordOutcome acc template outputPath result) w1)"

text \<open>\<open>try { await fs.access(dir) } catch { await fs.mkdir(dir, { recursive: true }) }\<close>;
  both calls reject a directory that is \<open>undefined\<close>.\<close>

definition ensureOutputDir :: "string option \<Rightarrow> unit io" where
  "ensureOutputDir dir =
     (case dir of
        None \<Rightarrow> io_throw (Error ''ERR_INVALID_ARG_TYPE'')
      | Some d \<Rightarrow> io_catch (fs_access d) (\<lambda>_. fs_mkdir d))"

definition fetchData :: "platform \<Rightarrow> FetchOptions \<Rightarrow> DownloadResult io" where
  "fetchData P options = (\<lambda>w.
     let date = (case opt_date options of Some d \<Rightarrow> d | None \<Rightarrow> now w);
         config = mergeConfig (DEFAULT_CONFIG P) (opt_config options);
         templates = (case opt_urlTemplates options of
                        Some ts \<Rightarrow> ts | None \<Rightarrow> DEFAULT_URL_TEMPLATES);
         fetchFn = (case opt_fetchFn options of Some f \<Rightarrow> f | None \<Rightarrow> global_fetch P)
     in io_bind (ensureOutputDir (outputDir_val config)) (\<lambda>_.
        io_bind (\<lambda>w'. (format_date P date (dateFormat_val config), w')) (\<lambda>dateStr.
        processTemplates P config dateStr fetchFn templates
          \<lparr>downloadedFiles = [], skippedFiles = [], fileSizeWarnings = []\<rparr>)) w)"

section \<open>Notions used in the statements\<close>

text \<open>The output path and the result of the download of each template, in the order
  of the loop, each download starting in the world its predecessor left.\<close>

fun templateResults ::
  "platform \<Rightarrow> MergedConfig \<Rightarrow> string \<Rightarrow> transport \<Rightarrow> FileTemplate list \<Rightarrow>
   world \<Rightarrow> (string \<times> FileResult) list" where
  "templateResults P config dateStr fetchFn [] w = []"
| "templateResults P config dateStr fetchFn (template # rest) w =
     (case downloadTemplate P config dateStr fetchFn template w of
        (Inl e, w1) \<Rightarrow> []
      | (Inr outcome, w1) \<Rightarrow> outcome # templateResults P config dateStr fetchFn rest w1)"

text \<open>The answers of the transport after which \<open>downloadFile\<close> returns from inside the
  \<open>try\<close> block without having written anything: a response that is not \<open>ok\<close>, and a
  body that is not valid.\<close>

definition endsEarly :: "error + Response \<Rightarrow> bool" where
  "endsEarly answer =
     (case answer of
        Inl e \<Rightarrow> False
      | Inr r \<Rightarrow>
          \<not> ok r \<or>
          (case bodyText r of Inl e \<Rightarrow> False | Inr c \<Rightarrow> \<not> isValid (validateCSVContent c)))"

text \<open>The answers of the transport that make the \<open>try\<close> block throw a value without
  conversion to text: thrown by the transport itself, or by \<open>text()\<close> of a response
  that is \<open>ok\<close>.\<close>

definition throwsUnprintable :: "error + Response \<Rightarrow> bool" where
  "throwsUnprintable answer =
     (case answer of
        Inl e \<Rightarrow> e = Unprintable
      | Inr r \<Rightarrow> ok r \<and> bodyText r = Inl Unprintable)"

section \<open>Concrete instances for the examples\<close>

text \<open>A platform with POSIX-like paths and a fixed date token.\<close>

definition examplePlatform :: platform where
  "examplePlatform =
     \<lparr>path_join = (\<lambda>dir file. dir @ ''/'' @ file),
      path_basename = (\<lambda>p. last (str_split CHR ''/'' p)),
      format_date = (\<lambda>d pattern. Inr ''20240101''),
      cwd = ''/work'',
      global_fetch = (\<lambda>n url. Inl (Error ''no network''))\<rparr>"

text \<open>An empty file system in which no call fails, and in which a leading \<open>./\<close> of
  a path does not matter.\<close>

definition dropDotSlash :: "string \<Rightarrow> string" where
  "dropDotSlash p = (if take 2 p = ''./'' then drop 2 p else p)"

definition quietWorld :: world where
  "quietWorld =
     \<lparr>resolve = dropDotSlash, nodes = Map.empty, trace = [],
      faults = (\<lambda>n c. NoFault), now = 0\<rparr>"

text \<open>A transport that throws an \<open>Error\<close>, one that throws a \<open>Symbol\<close>, one that
  answers 200 with a given body, and one that answers 404.\<close>

definition throwingFetch :: transport where
  "throwingFetch = (\<lambda>n url. Inl (Error ''Network error''))"

definition symbolFetch :: transport where
  "symbolFetch = (\<lambda>n url. Inl Unprintable)"

definition respondWith :: "string \<Rightarrow> transport" where
  "respondWith body =
     (\<lambda>n url. Inr \<lparr>ok = True, status = 200, statusText = ''OK'', bodyText = Inr body\<rparr>)"

definition notFoundFetch :: transport where
  "notFoundFetch =
     (\<lambda>n url. Inr \<lparr>ok = False, status = 404, statusText = ''Not Found'',
                   bodyText = Inr ''Not Found''\<rparr>)"

text \<open>A transport that answers 200 for one URL and 404 for every other.\<close>

definition selectiveFetch :: transport where
  "selectiveFetch =
     (\<lambda>n url. if url = ''http://host/a20240101.csv''
               then Inr \<lparr>ok = True, status = 200, statusText = ''OK'', bodyText = Inr ''a,b''\<rparr>
               else Inr \<lparr>ok = False, status = 404, statusText = ''Not Found'',
                         bodyText = Inr ''Not Found''\<rparr>)"

definition exampleOptions :: FetchOptions where
  "exampleOptions =
     \<lparr>opt_date = Some 0,
      opt_config = Some \<lparr>outputDir_key = Given ''/out'',
                         sizeChangeThresholdPercent_key = Absent,
                         baseUrl_key = Given ''http://host'',
                         dateFormat_key = Absent\<rparr>,
      opt_urlTemplates = Some [\<lparr>urlTemplate = ''{baseUrl}/a{0}.csv'', outputFile = ''a.csv''\<rparr>,
                               \<lparr>urlTemplate = ''{baseUrl}/b{0}.csv'', outputFile = ''b.csv''\<rparr>],
      opt_fetchFn = Some selectiveFetch\<rparr>"

section \<open>Properties of the text primitives\<close>

lemma str_includes_sublist: "str_includes s p \<longleftrightarrow> sublist p s"
  by (induction s) (auto simp: sublist_Cons_right)

lemma str_includes_char: "str_includes s [c] \<longleftrightarrow> c \<in> set s"
  by (induction s) auto

lemma str_split_nonempty: "str_split sep s \<noteq> []"
  by (induction s) (auto split: list.splits)

lemma str_split_no_sep: "l \<in> set (str_split sep s) \<Longrightarrow> sep \<notin> set l"
  by (induction s arbitrary: l) (auto split: list.splits if_splits)

text \<open>Splitting cuts the text at its separators and nowhere else: joining the
  pieces gives the text back, and no piece holds a separator.\<close>

lemma str_join_split: "str_join sep (str_split sep s) = s"
proof (induction s)
  case Nil
  show ?case by simp
next
  case (Cons c cs)
  obtain l ls where pieces: "str_split sep cs = l # ls"
    using str_split_nonempty [of sep cs] by (cases "str_split sep cs") auto
  show ?case
  proof (cases "c = sep")
    case True
    with Cons pieces show ?thesis by simp
  next
    case False
    with Cons pieces show ?thesis by (cases ls) auto
  qed
qed

text \<open>A character other than the separator occurs in one of the first \<open>n\<close> pieces
  exactly when it occurs somewhere with fewer than \<open>n\<close> separators before it.\<close>

lemma char_in_first_pieces:
  assumes "c \<noteq> sep"
  shows "(\<exists>line \<in> set (take n (str_split sep s)). c \<in> set line) \<longleftrightarrow>
         (\<exists>pre post. s = pre @ c # post \<and> count_list pre sep < n)"
proof (induction s arbitrary: n)
  case Nil
  show ?case by (cases n) auto
next
  case (Cons x xs)
  obtain l ls where pieces: "str_split sep xs = l # ls"
    using str_split_nonempty [of sep xs] by (cases "str_split sep xs") auto
  show ?case
  proof (cases "x = sep")
    case True
    show ?thesis
    proof (cases n)
      case 0
      then show ?thesis by simp
    next
      case (Suc m)
      have "(\<exists>pre post. x # xs = pre @ c # post \<and> count_list pre sep < Suc m) \<longleftrightarrow>
            (\<exists>pre post. xs = pre @ c # post \<and> count_list pre sep < m)"
      proof
        assume "\<exists>pre post. x # xs = pre @ c # post \<and> count_list pre sep < Suc m"
        then show "\<exists>pre post. xs = pre @ c # post \<and> count_list pre sep < m"
          using True assms by (auto simp: Cons_eq_append_conv)
      next
        assume "\<exists>pre post. xs = pre @ c # post \<and> count_list pre sep < m"
        then obtain pre post where "xs = pre @ c # post" and "count_list pre sep < m"
          by blast
        then have "x # xs = (x # pre) @ c # post \<and> count_list (x # pre) sep < Suc m"
          using True by simp
        then show "\<exists>pre post. x # xs = pre @ c # post \<and> count_list pre sep < Suc m"
          by blast
      qed
      with Cons.IH [of m] True Suc show ?thesis by simp
    qed
  next
    case False
    show ?thesis
    proof (cases n)
      case 0
      then show ?thesis by simp
    next
      case (Suc m)
      have "(\<exists>pre post. x # xs = pre @ c # post \<and> count_list pre sep < Suc m) \<longleftrightarrow>
            c = x \<or> (\<exists>pre post. xs = pre @ c # post \<and> count_list pre sep < Suc m)"
      proof
        assume "\<exists>pre post. x # xs = pre @ c # post \<and> count_list pre sep < Suc m"
        then show "c = x \<or> (\<exists>pre post. xs = pre @ c # post \<and> count_list pre sep < Suc m)"
          using False by (auto simp: Cons_eq_append_conv)
      next
        assume "c = x \<or> (\<exists>pre post. xs = pre @ c # post \<and> count_list pre sep < Suc m)"
        then show "\<exists>pre post. x # xs = pre @ c # post \<and> count_list pre sep < Suc m"
        proof
          assume "c = x"
          then have "x # xs = [] @ c # xs \<and> count_list [] sep < Suc m" by simp
          then show ?thesis by blast
        next
          assume "\<exists>pre post. xs = pre @ c # post \<and> count_list pre sep < Suc m"
          then obtain pre post where "xs = pre @ c # post" and "count_list pre sep < Suc m"
            by blast
          then have "x # xs = (x # pre) @ c # post \<and> count_list (x # pre) sep < Suc m"
            using False by simp
          then show ?thesis by blast
        qed
      qed
      moreover have "(\<exists>line \<in> set (take (Suc m) (str_split sep (x # xs))). c \<in> set line) \<longleftrightarrow>
            c = x \<or> (\<exists>line \<in> set (take (Suc m) (str_split sep xs)). c \<in> set line)"
        using False pieces by auto
      ultimately show ?thesis using Cons.IH [of "Suc m"] Suc by simp
    qed
  qed
qed

lemma list_ex_htmlPatterns:
  "list_ex (\<lambda>pattern. str_includes content pattern) htmlPatterns \<longleftrightarrow>
     sublist ''<!DOCTYPE'' content \<or> sublist ''<html'' content \<or>
     sublist ''<body'' content \<or> sublist ''<head'' content"
  by (simp add: htmlPatterns_def str_includes_sublist)

lemma list_ex_comma:
  "list_ex (\<lambda>line. str_includes line '','') ls \<longleftrightarrow>
     (\<exists>line \<in> set ls. CHR '','' \<in> set line)"
  by (simp add: list_ex_iff str_includes_char)

section \<open>Properties of the content validation\<close>

text \<open>
  C1. For every content, \<open>validateCSVContent\<close> reports valid exactly when the content
  holds none of the four markers as a substring and one of the first three lines,
  as split at the newlines, holds a comma. The empty text is reported invalid.
\<close>

theorem validateCSVContent_valid_iff:
  "(isValid (validateCSVContent content) \<longleftrightarrow>
      (\<not> sublist ''<!DOCTYPE'' content \<and> \<not> sublist ''<html'' content \<and>
       \<not> sublist ''<body'' content \<and> \<not> sublist ''<head'' content) \<and>
      (\<exists>line \<in> set (take 3 (str_split newline content)). CHR '','' \<in> set line))
   \<and> \<not> isValid (validateCSVContent [])"
  unfolding validateCSVContent_def Let_def list_ex_htmlPatterns list_ex_comma
  by simp

theorem validateCSVContent_valid_iff_witness:
  "isValid (validateCSVContent ''a,b'')"
proof -
  have markers: "\<not> sublist ''<!DOCTYPE'' ''a,b'' \<and> \<not> sublist ''<html'' ''a,b'' \<and>
      \<not> sublist ''<body'' ''a,b'' \<and> \<not> sublist ''<head'' ''a,b''"
    by (simp add: sublist_Cons_right)
  have comma: "\<exists>line \<in> set (take 3 (str_split newline ''a,b'')). CHR '','' \<in> set line"
    by (simp add: newline_def)
  from markers comma show ?thesis
    using validateCSVContent_valid_iff [of "''a,b''"] by blast
qed

text \<open>
  C9, as the claim states it, fails: the reasons the validator gives are the texts
  \<open>Content contains HTML markup\<close> and \<open>Content lacks comma separators\<close>, not
  \<open>contains HTML markup\<close> and \<open>lacks comma separators\<close>.
\<close>

theorem validateCSVContent_reason_counterexample:
  "sublist ''<html'' ''<html>'' \<and>
   validateCSVContent ''<html>'' \<noteq>
     \<lparr>isValid = False, reason = Some ''contains HTML markup''\<rparr> \<and>
   validateCSVContent ''abc'' \<noteq>
     \<lparr>isValid = False, reason = Some ''lacks comma separators''\<rparr>"
  by (simp add: validateCSVContent_def htmlPatterns_def newline_def sublist_Cons_right)

text \<open>
  C9, amended. The rules apply in order: a content holding one of the markers is
  invalid with the reason \<open>Content contains HTML markup\<close>, whatever its commas;
  a content without markers whose first three lines hold no comma is invalid with
  the reason \<open>Content lacks comma separators\<close>.
\<close>

theorem validateCSVContent_reasons:
  "((sublist ''<!DOCTYPE'' content \<or> sublist ''<html'' content \<or>
     sublist ''<body'' content \<or> sublist ''<head'' content) \<longrightarrow>
      validateCSVContent content =
        \<lparr>isValid = False, reason = Some ''Content contains HTML markup''\<rparr>) \<and>
   (\<not> sublist ''<!DOCTYPE'' content \<and> \<not> sublist ''<html'' content \<and>
    \<not> sublist ''<body'' content \<and> \<not> sublist ''<head'' content \<and>
    (\<forall>line \<in> set (take 3 (str_split newline content)). CHR '','' \<notin> set line) \<longrightarrow>
      validateCSVContent content =
        \<lparr>isValid = False, reason = Some ''Content lacks comma separators''\<rparr>)"
  unfolding validateCSVContent_def Let_def list_ex_htmlPatterns list_ex_comma
  by auto

theorem validateCSVContent_reasons_witness:
  "validateCSVContent ''<html>'' =
     \<lparr>isValid = False, reason = Some ''Content contains HTML markup''\<rparr> \<and>
   validateCSVContent ''abc'' =
     \<lparr>isValid = False, reason = Some ''Content lacks comma separators''\<rparr>"
proof -
  have html: "sublist ''<html'' ''<html>''"
    by (simp add: sublist_Cons_right)
  have plain: "\<not> sublist ''<!DOCTYPE'' ''abc'' \<and> \<not> sublist ''<html'' ''abc'' \<and>
      \<not> sublist ''<body'' ''abc'' \<and> \<not> sublist ''<head'' ''abc'' \<and>
      (\<forall>line \<in> set (take 3 (str_split newline ''abc'')). CHR '','' \<notin> set line)"
    by (simp add: sublist_Cons_right newline_def)
  from html have "validateCSVContent ''<html>'' =
     \<lparr>isValid = False, reason = Some ''Content contains HTML markup''\<rparr>"
    using validateCSVContent_reasons [of "''<html>''"] by blast
  moreover from plain have "validateCSVContent ''abc'' =
     \<lparr>isValid = False, reason = Some ''Content lacks comma separators''\<rparr>"
    using validateCSVContent_reasons [of "''abc''"] by blast
  ultimately show ?thesis by simp
qed

text \<open>
  C10. The validator agrees with the two legacy predicates: a content is valid
  exactly when \<open>isHtmlContent\<close> is false and \<open>isValidCsv\<close> is true.
\<close>

theorem validateCSVContent_legacy_equiv:
  "isValid (validateCSVContent content) \<longleftrightarrow> \<not> isHtmlContent content \<and> isValidCsv content"
  by (simp add: validateCSVContent_def isHtmlContent_def isValidCsv_def Let_def)

text \<open>The comma rule without lines: some comma of the content has fewer than three
  newlines before it.\<close>

lemma isValidCsv_positions:
  "isValidCsv content \<longleftrightarrow>
     (\<exists>pre post. content = pre @ CHR '','' # post \<and> count_list pre newline < 3)"
proof -
  have "CHR '','' \<noteq> newline" by (simp add: newline_def)
  from char_in_first_pieces [OF this, of 3 content] show ?thesis
    by (simp add: isValidCsv_def list_ex_comma)
qed

section \<open>Properties of the size-change check\<close>

text \<open>
  C5. With an old size of zero the check returns no change and no warning, for
  every new size, threshold and label; no quotient is computed.
\<close>

theorem checkFileSizeChange_zero_old:
  "checkFileSizeChange rnd newSize 0 threshold fileName = \<lparr>changed = False, warning = None\<rparr>"
  by (simp add: checkFileSizeChange_def)


subsection \<open>Rounding to double precision\<close>

declare bit_length.simps [simp del]

lemma bit_length_0: "bit_length 0 = 0"
  by (simp add: bit_length.simps)

lemma bit_length_pos: "0 < n \<Longrightarrow> bit_length n = Suc (bit_length (n div 2))"
  by (subst bit_length.simps) simp


text \<open>\<open>binade\<close> finds the binade of a positive number.\<close>

lemma bit_length_bounds: "0 < n \<Longrightarrow> 2 ^ (bit_length n - 1) \<le> n \<and> n < 2 ^ bit_length n"
proof (induction n rule: bit_length.induct)
  case (1 n)
  show ?case
  proof (cases "n div 2 = 0")
    case True
    with 1(2) have "n = 1" by (auto simp: div_eq_0_iff)
    then show ?thesis by (simp add: bit_length_pos bit_length_0)
  next
    case False
    then have pos: "0 < n div 2" by simp
    from 1(1) [OF _ pos] 1(2) have IH: "2 ^ (bit_length (n div 2) - 1) \<le> n div 2" "n div 2 < 2 ^ bit_length (n div 2)"
      by auto
    have bl: "bit_length n = Suc (bit_length (n div 2))" using 1(2) by (rule bit_length_pos)
    have blpos: "0 < bit_length (n div 2)" using pos by (simp add: bit_length_pos)
    have "2 ^ (bit_length n - 1) = 2 * 2 ^ (bit_length (n div 2) - 1)"
      using bl blpos by (cases "bit_length (n div 2)") auto
    also have "\<dots> \<le> 2 * (n div 2)" using IH(1) by simp
    also have "\<dots> \<le> n" by simp
    finally have a: "2 ^ (bit_length n - 1) \<le> n" .
    have "n < 2 * (n div 2) + 2" by presburger
    also have "\<dots> \<le> 2 * 2 ^ bit_length (n div 2)" using IH(2) by simp
    finally have b: "n < 2 ^ bit_length n" using bl by simp
    from a b show ?thesis ..
  qed
qed

lemma pow2_pos: "0 < pow2 e"
  by (simp add: pow2_def)

lemma binade_bounds:
  assumes "0 < x"
  shows "pow2 (binade x) \<le> x \<and> x < 2 * pow2 (binade x)"
proof (cases "1 \<le> x")
  case True
  define n where "n = nat \<lfloor>x\<rfloor>"
  have npos: "0 < n" using True by (simp add: n_def)
  have nx: "real n \<le> x" "x < real n + 1" using True by (simp_all add: n_def)
  from bit_length_bounds [OF npos]
  have lo: "2 ^ (bit_length n - 1) \<le> n" and hi: "n < 2 ^ bit_length n" by simp_all
  have blpos: "0 < bit_length n" using npos by (simp add: bit_length_pos)
  have e: "binade x = int (bit_length n - 1)"
    using True blpos by (simp add: binade_def n_def of_nat_diff)
  have p: "pow2 (binade x) = 2 ^ (bit_length n - 1)"
    by (simp add: e pow2_def)
  have "(2::real) ^ (bit_length n - 1) \<le> real n" using of_nat_mono [OF lo, where 'a = real] by simp
  then have a: "pow2 (binade x) \<le> x" unfolding p using nx(1) by linarith
  have "n + 1 \<le> 2 ^ bit_length n" using hi by simp
  from of_nat_mono [OF this, where 'a = real] have "real n + 1 \<le> 2 ^ bit_length n" by simp
  moreover have "(2::real) ^ bit_length n = 2 * 2 ^ (bit_length n - 1)"
    using blpos by (cases "bit_length n") simp_all
  ultimately have b: "x < 2 * pow2 (binade x)" unfolding p using nx(2) by linarith
  from a b show ?thesis ..
next
  case False
  define y where "y = 1 / x"
  have y1: "1 < y" using False assms by (simp add: y_def)
  define m where "m = nat \<lceil>y\<rceil> - 1"
  have c2: "2 \<le> \<lceil>y\<rceil>" using y1 by linarith
  have mpos: "0 < m" using c2 by (simp add: m_def)
  have my: "real m < y" "y \<le> real m + 1"
    using c2 by (simp_all add: m_def of_nat_diff) linarith+
  from bit_length_bounds [OF mpos]
  have lo: "2 ^ (bit_length m - 1) \<le> m" and hi: "m < 2 ^ bit_length m" by simp_all
  have blpos: "0 < bit_length m" using mpos by (simp add: bit_length_pos)
  have e: "binade x = - int (bit_length m)"
    using False by (simp add: binade_def m_def y_def)
  have p: "pow2 (binade x) = 1 / 2 ^ bit_length m"
    using blpos by (simp add: e pow2_def)
  have "m + 1 \<le> 2 ^ bit_length m" using hi by simp
  from of_nat_mono [OF this, where 'a = real] have "real m + 1 \<le> 2 ^ bit_length m" by simp
  then have "y \<le> 2 ^ bit_length m" using my(2) by linarith
  then have a: "pow2 (binade x) \<le> x"
    using assms by (simp add: p y_def field_simps)
  have "(2::real) ^ (bit_length m - 1) \<le> real m" using of_nat_mono [OF lo, where 'a = real] by simp
  then have low: "2 ^ (bit_length m - 1) < y" using my(1) by linarith
  have twice: "(2::real) ^ bit_length m = 2 * 2 ^ (bit_length m - 1)"
    using blpos by (cases "bit_length m") simp_all
  have "2 ^ bit_length m < 2 * y" unfolding twice using low by simp
  then have b: "x < 2 * pow2 (binade x)"
    using assms by (simp add: p y_def field_simps)
  from a b show ?thesis ..
qed

text \<open>\<open>round_double\<close> gives a multiple of the unit of the binade, at most half a unit
  away; it commutes with negation and keeps the sign.\<close>

lemma round_half_even_near: "\<bar>of_int (round_half_even y) - y\<bar> \<le> 1 / 2"
  by (auto simp: round_half_even_def Let_def abs_le_iff)

lemma round_double_near:
  "\<bar>round_double x - x\<bar> \<le> pow2 (binade \<bar>x\<bar> - 52) / 2"
proof (cases "x = 0")
  case True
  then show ?thesis using pow2_pos [of "binade \<bar>x\<bar> - 52"] by (simp add: round_double_def)
next
  case False
  define u where "u = pow2 (binade \<bar>x\<bar> - 52)"
  have upos: "0 < u" unfolding u_def by (rule pow2_pos)
  define m where "m = round_half_even (\<bar>x\<bar> / u)"
  have rd: "round_double x = sgn x * of_int m * u"
    using False by (simp add: round_double_def Let_def u_def m_def)
  have x: "x = sgn x * (\<bar>x\<bar> / u) * u"
    using upos by (simp add: sgn_if)
  have "round_double x - x = sgn x * u * (of_int m - \<bar>x\<bar> / u)"
    unfolding rd by (subst (2) x) (simp add: algebra_simps)
  then have "\<bar>round_double x - x\<bar> = u * \<bar>of_int m - \<bar>x\<bar> / u\<bar>"
    using upos False by (simp add: abs_mult sgn_if)
  also have "\<dots> \<le> u * (1 / 2)"
    using upos round_half_even_near [of "\<bar>x\<bar> / u"] unfolding m_def
    by (intro mult_left_mono) simp_all
  finally show ?thesis by (simp add: u_def)
qed








text \<open>
  C7, as the claim states it, fails: the percentage is taken relative to the second
  argument, so swapping changes it. From 50 to 100 bytes is an increase by 100%,
  from 100 to 50 bytes a decrease by 50% (all the numbers involved are exact in
  double precision). With equal sizes, which warn under a negative threshold, the
  label is \<open>decreased\<close> both ways.
\<close>

theorem checkFileSizeChange_swap_counterexample:
  "SizeChange.warning (checkFileSizeChange (\<lambda>x. x) 100 50 10 ''f.csv'') =
     Some ''WARNING: File f.csv has increased in size by 100.00% (from 50 to 100 bytes)'' \<and>
   SizeChange.warning (checkFileSizeChange (\<lambda>x. x) 50 100 10 ''f.csv'') =
     Some ''WARNING: File f.csv has decreased in size by 50.00% (from 100 to 50 bytes)'' \<and>
   sizeDifferencePercent (\<lambda>x. x) 100 50 \<noteq> sizeDifferencePercent (\<lambda>x. x) 50 100 \<and>
   SizeChange.warning (checkFileSizeChange (\<lambda>x. x) 10 10 (- 1) ''f.csv'') =
     Some ''WARNING: File f.csv has decreased in size by 0.00% (from 10 to 10 bytes)''"
  by (simp add: checkFileSizeChange_def sizeDifferencePercent_def changeDirection_def
      warningText_def toFixed2_def)

text \<open>
  C7, amended. For two different sizes above zero, swapping the first two arguments
  flips the direction label: whenever the check warns its label is \<open>increased\<close> if
  the new size is the larger one and \<open>decreased\<close> otherwise, and whenever the
  swapped check warns its label is the opposite one. Each warning states the
  percentage relative to its own second argument.
\<close>

theorem checkFileSizeChange_swap_direction:
  assumes "0 < newSize" and "0 < oldSize" and "newSize \<noteq> oldSize"
  shows "\<exists>d d'. (d = ''increased'' \<and> d' = ''decreased'' \<or>
                 d = ''decreased'' \<and> d' = ''increased'') \<and>
     (d = ''increased'' \<longleftrightarrow> newSize > oldSize) \<and>
     (\<forall>w. SizeChange.warning (checkFileSizeChange rnd newSize oldSize threshold fileName) = Some w
        \<longrightarrow> w = warningText fileName d
                  (sizeDifferencePercent rnd newSize oldSize) oldSize newSize) \<and>
     (\<forall>w. SizeChange.warning (checkFileSizeChange rnd oldSize newSize threshold fileName) = Some w
        \<longrightarrow> w = warningText fileName d'
                  (sizeDifferencePercent rnd oldSize newSize) newSize oldSize)"
proof (cases "newSize > oldSize")
  case True
  then show ?thesis
    by (intro exI [of _ "''increased''"] exI [of _ "''decreased''"])
       (simp add: checkFileSizeChange_def changeDirection_def)
next
  case False
  with assms(3) have "oldSize > newSize" by simp
  with False show ?thesis
    by (intro exI [of _ "''decreased''"] exI [of _ "''increased''"])
       (simp add: checkFileSizeChange_def changeDirection_def)
qed

theorem checkFileSizeChange_swap_direction_witness:
  "\<exists>d d'. (d = ''increased'' \<and> d' = ''decreased'' \<or>
           d = ''decreased'' \<and> d' = ''increased'') \<and>
     (d = ''increased'' \<longleftrightarrow> (100::nat) > 50) \<and>
     (\<forall>w. SizeChange.warning (checkFileSizeChange (\<lambda>x. x) 100 50 10 ''f.csv'') = Some w
        \<longrightarrow> w = warningText ''f.csv'' d (sizeDifferencePercent (\<lambda>x. x) 100 50) 50 100) \<and>
     (\<forall>w. SizeChange.warning (checkFileSizeChange (\<lambda>x. x) 50 100 10 ''f.csv'') = Some w
        \<longrightarrow> w = warningText ''f.csv'' d' (sizeDifferencePercent (\<lambda>x. x) 50 100) 100 50)"
proof -
  have a: "(0::nat) < 100" and b: "(0::nat) < 50" and c: "(100::nat) \<noteq> 50"
    by simp_all
  show ?thesis
    by (rule checkFileSizeChange_swap_direction [OF a b c])
qed

section \<open>Properties of the download of one file\<close>

lemmas io_defs = io_bind_def io_catch_def io_return_def io_throw_def
lemmas fs_defs = fs_access_def fs_exists_def fs_stat_size_def fs_writeFile_def fs_rename_def
  fs_unlink_def fs_mkdir_def call_fetch_def response_text_def logged_def fault_of_def
lemmas example_defs = examplePlatform_def quietWorld_def dropDotSlash_def throwingFetch_def
  symbolFetch_def respondWith_def notFoundFetch_def
lemmas run_defs = downloadFile_def downloadFile_try_def downloadFile_cleanup_def toText_def
  thresholdOrDefault_def fetchOrDefault_def
  validateCSVContent_def htmlPatterns_def newline_def truthy_def

text \<open>The cleanup never throws and always returns the failure result; it calls
  \<open>unlink\<close> exactly when the existence check succeeds.\<close>

lemma downloadFile_cleanup_eq:
  "downloadFile_cleanup t w =
     (Inr \<lparr>success = False, warning = None\<rparr>,
      (if fault_of w (Access t) \<noteq> NoFault \<or> nodes w (resolve w t) = None
       then logged (Access t) w
       else snd (fs_unlink t (logged (Access t) w))))"
  by (auto simp: downloadFile_cleanup_def io_defs fs_defs Let_def split: option.splits node.splits)



text \<open>What the \<open>try\<close> block leaves behind, whichever way it ends.\<close>

lemma downloadFile_try_post:
  assumes "downloadFile_try P url out tmp thr fetchFn w = (res, w1)"
  shows "faults w1 = faults w"
    and "resolve w1 = resolve w"
    and "\<And>r. res = Inr r \<Longrightarrow> success r \<Longrightarrow> resolve w tmp \<noteq> resolve w out \<Longrightarrow>
           nodes w1 (resolve w tmp) = None"
    and "\<And>r. res = Inr r \<Longrightarrow> \<not> success r \<Longrightarrow>
           nodes w1 = nodes w \<and> warning r = None \<and> endsEarly (fetchFn (length (trace w)) url)"
    and "\<And>r x. res = Inr r \<Longrightarrow> warning r = Some x \<Longrightarrow> x \<noteq> []"
    and "\<And>l n. nodes w1 l = Some (Dir n) \<Longrightarrow> nodes w l = Some (Dir n)"
    and "res = Inl Unprintable \<Longrightarrow> throwsUnprintable (fetchFn (length (trace w)) url)"
  using assms
  by (auto simp: downloadFile_try_def io_defs fs_defs Let_def truthy_def endsEarly_def
      throwsUnprintable_def
      split: sum.splits option.splits node.splits fault.splits if_splits prod.splits)

lemma fs_unlink_post:
  "snd (fs_unlink t w) = w1 \<Longrightarrow>
     trace w1 = trace w @ [Unlink t] \<and> faults w1 = faults w \<and> resolve w1 = resolve w \<and>
     (\<forall>l. l \<noteq> resolve w t \<longrightarrow> nodes w1 l = nodes w l) \<and>
     (nodes w1 (resolve w t) = nodes w (resolve w t) \<or> nodes w1 (resolve w t) = None) \<and>
     (fault_of w (Unlink t) \<noteq> NoFault \<longrightarrow> nodes w1 = nodes w) \<and>
     (fault_of w (Unlink t) = NoFault \<longrightarrow> (\<forall>c. nodes w1 (resolve w t) \<noteq> Some (File c)))"
  by (auto simp: fs_defs Let_def split: option.splits node.splits if_splits)

text \<open>\<open>downloadFile\<close> returns a result unless a value without conversion to text is
  thrown inside the \<open>try\<close> block, and a warning it returns is never the empty text.\<close>

lemma downloadFile_total:
  assumes "\<not> throwsUnprintable (fetchOrDefault P fetchFn (length (trace w)) url)"
  shows "\<exists>r w'. downloadFile P url out tmp thr fetchFn w = (Inr r, w') \<and>
     (\<forall>x. warning r = Some x \<longrightarrow> x \<noteq> [])"
proof (cases "downloadFile_try P url out tmp (thresholdOrDefault P thr) (fetchOrDefault P fetchFn) w")
  case (Pair res w1)
  show ?thesis
  proof (cases res)
    case (Inl e)
    with downloadFile_try_post(7) [OF Pair] assms obtain s where "e = Error s"
      by (cases e) auto
    with Pair Inl show ?thesis
      by (simp add: downloadFile_def io_catch_def io_bind_def toText_def io_return_def
          downloadFile_cleanup_eq)
  next
    case (Inr r)
    with Pair downloadFile_try_post(5) [OF Pair Inr] show ?thesis
      by (simp add: downloadFile_def io_catch_def)
  qed
qed




text \<open>
  C3, as the claim states it, fails. The temporary file that this very call wrote is
  still there when it returns, if the rename fails and then the deletion fails, or
  if the rename fails and the existence check of the cleanup fails (it then counts
  the file as absent). When the transport throws and the deletion of an existing
  temporary file fails (the case the repository's cleanup tests set up), that file
  stays. A temporary file left by an earlier run stays when the response is not
  \<open>ok\<close>, since that path returns without any cleanup. And with two spellings of one
  file as temporary and final path, the file is there under the temporary path after
  a success.
\<close>

theorem downloadFile_temp_left_counterexample:
  "fst (downloadFile examplePlatform ''u'' ''out.csv'' ''out.csv.tmp'' (Some 20)
          (Some (respondWith ''a,b''))
          (quietWorld\<lparr>faults := (\<lambda>n c. if c = Rename ''out.csv.tmp'' ''out.csv'' \<or>
                                           c = Unlink ''out.csv.tmp'' then Fails else NoFault)\<rparr>)) =
     Inr \<lparr>success = False, warning = None\<rparr> \<and>
   nodes (snd (downloadFile examplePlatform ''u'' ''out.csv'' ''out.csv.tmp'' (Some 20)
          (Some (respondWith ''a,b''))
          (quietWorld\<lparr>faults := (\<lambda>n c. if c = Rename ''out.csv.tmp'' ''out.csv'' \<or>
                                           c = Unlink ''out.csv.tmp'' then Fails else NoFault)\<rparr>)))
     ''out.csv.tmp'' = Some (File ''a,b'') \<and>
   fst (downloadFile examplePlatform ''u'' ''out.csv'' ''out.csv.tmp'' (Some 20)
          (Some (respondWith ''a,b''))
          (quietWorld\<lparr>faults := (\<lambda>n c. if c = Rename ''out.csv.tmp'' ''out.csv'' \<or>
                                           c = Access ''out.csv.tmp'' then Fails else NoFault)\<rparr>)) =
     Inr \<lparr>success = False, warning = None\<rparr> \<and>
   nodes (snd (downloadFile examplePlatform ''u'' ''out.csv'' ''out.csv.tmp'' (Some 20)
          (Some (respondWith ''a,b''))
          (quietWorld\<lparr>faults := (\<lambda>n c. if c = Rename ''out.csv.tmp'' ''out.csv'' \<or>
                                           c = Access ''out.csv.tmp'' then Fails else NoFault)\<rparr>)))
     ''out.csv.tmp'' = Some (File ''a,b'') \<and>
   fst (downloadFile examplePlatform ''u'' ''out.csv'' ''out.csv.tmp'' (Some 20) (Some throwingFetch)
          (quietWorld\<lparr>nodes := [''out.csv.tmp'' \<mapsto> File ''test content''],
                      faults := (\<lambda>n c. if c = Unlink ''out.csv.tmp'' then Fails else NoFault)\<rparr>)) =
     Inr \<lparr>success = False, warning = None\<rparr> \<and>
   nodes (snd (downloadFile examplePlatform ''u'' ''out.csv'' ''out.csv.tmp'' (Some 20)
          (Some throwingFetch)
          (quietWorld\<lparr>nodes := [''out.csv.tmp'' \<mapsto> File ''test content''],
                      faults := (\<lambda>n c. if c = Unlink ''out.csv.tmp'' then Fails else NoFault)\<rparr>)))
     ''out.csv.tmp'' = Some (File ''test content'') \<and>
   fst (downloadFile examplePlatform ''u'' ''out.csv'' ''out.csv.tmp'' (Some 20) (Some notFoundFetch)
          (quietWorld\<lparr>nodes := [''out.csv.tmp'' \<mapsto> File ''stale'']\<rparr>)) =
     Inr \<lparr>success = False, warning = None\<rparr> \<and>
   nodes (snd (downloadFile examplePlatform ''u'' ''out.csv'' ''out.csv.tmp'' (Some 20)
          (Some notFoundFetch)
          (quietWorld\<lparr>nodes := [''out.csv.tmp'' \<mapsto> File ''stale'']\<rparr>)))
     ''out.csv.tmp'' = Some (File ''stale'') \<and>
   fst (downloadFile examplePlatform ''u'' ''out.csv'' ''./out.csv'' (Some 20)
          (Some (respondWith ''a,b'')) quietWorld) =
     Inr \<lparr>success = True, warning = None\<rparr> \<and>
   nodes (snd (downloadFile examplePlatform ''u'' ''out.csv'' ''./out.csv'' (Some 20)
          (Some (respondWith ''a,b'')) quietWorld))
     (resolve quietWorld ''./out.csv'') = Some (File ''a,b'')"
  by (simp add: run_defs io_defs fs_defs example_defs checkFileSizeChange_def
      sizeDifferencePercent_def round_double_def Let_def)

text \<open>
  C3, amended. Suppose the temporary and the final path name different files, the
  existence check and the deletion of the temporary path do not fail, and, if a
  temporary file is already there, the call does not end at one of its two early
  returns (a response that is not \<open>ok\<close>, a body that is not valid). Then whenever
  \<open>downloadFile\<close> returns, with success or failure, no file is left at the temporary
  path: it was never written, was renamed onto the final path, or was deleted by the
  cleanup. And \<open>downloadFile\<close> does return, unless a value without conversion to
  text is thrown.
\<close>

theorem downloadFile_temp_removed:
  assumes "resolve w tempPath \<noteq> resolve w outputPath"
    and "\<forall>n. faults w n (Access tempPath) = NoFault \<and> faults w n (Unlink tempPath) = NoFault"
    and "(\<forall>c. nodes w (resolve w tempPath) \<noteq> Some (File c)) \<or>
         \<not> endsEarly (fetchOrDefault P fetchFn (length (trace w)) url)"
  shows "(\<forall>r w'. downloadFile P url outputPath tempPath sizeChangeThreshold fetchFn w = (Inr r, w')
            \<longrightarrow> (\<forall>c. nodes w' (resolve w tempPath) \<noteq> Some (File c))) \<and>
         (\<not> throwsUnprintable (fetchOrDefault P fetchFn (length (trace w)) url)
            \<longrightarrow> (\<exists>r w'. downloadFile P url outputPath tempPath sizeChangeThreshold fetchFn w =
                   (Inr r, w')))"
proof
  show "\<not> throwsUnprintable (fetchOrDefault P fetchFn (length (trace w)) url)
      \<longrightarrow> (\<exists>r w'. downloadFile P url outputPath tempPath sizeChangeThreshold fetchFn w = (Inr r, w'))"
    using downloadFile_total [of P fetchFn w url outputPath tempPath sizeChangeThreshold] by blast
next
  show "\<forall>r w'. downloadFile P url outputPath tempPath sizeChangeThreshold fetchFn w = (Inr r, w')
      \<longrightarrow> (\<forall>c. nodes w' (resolve w tempPath) \<noteq> Some (File c))"
  proof (intro allI impI)
    fix r w' c
    assume run: "downloadFile P url outputPath tempPath sizeChangeThreshold fetchFn w = (Inr r, w')"
    obtain res w1 where body: "downloadFile_try P url outputPath tempPath
        (thresholdOrDefault P sizeChangeThreshold) (fetchOrDefault P fetchFn) w = (res, w1)"
      by (cases "downloadFile_try P url outputPath tempPath
        (thresholdOrDefault P sizeChangeThreshold) (fetchOrDefault P fetchFn) w")
    note post = downloadFile_try_post [OF body]
    show "nodes w' (resolve w tempPath) \<noteq> Some (File c)"
    proof (cases res)
      case (Inr r1)
      with run body have same: "w' = w1" "r = r1"
        by (simp_all add: downloadFile_def io_catch_def)
      show ?thesis
      proof (cases "success r1")
        case True
        with post(3) [OF Inr] assms(1) same show ?thesis by simp
      next
        case False
        with post(4) [OF Inr] assms(3) same show ?thesis by auto
      qed
    next
      case (Inl e)
      show ?thesis
      proof (cases e)
        case Unprintable
        with run body Inl show ?thesis
          by (simp add: downloadFile_def io_catch_def io_bind_def toText_def io_throw_def)
      next
        case (Error s)
        let ?w2 = "if fault_of w1 (Access tempPath) \<noteq> NoFault \<or>
              nodes w1 (resolve w1 tempPath) = None
           then logged (Access tempPath) w1
           else snd (fs_unlink tempPath (logged (Access tempPath) w1))"
        have w': "w' = ?w2"
          using run body Inl Error
          by (simp add: downloadFile_def io_catch_def io_bind_def toText_def io_return_def
              downloadFile_cleanup_eq)
        have noaccess: "fault_of w1 (Access tempPath) = NoFault"
          using assms(2) post(1) by (simp add: fault_of_def)
        have nounlink: "fault_of (logged (Access tempPath) w1) (Unlink tempPath) = NoFault"
          using assms(2) post(1) by (simp add: fault_of_def logged_def)
        have "nodes ?w2 (resolve w1 tempPath) \<noteq> Some (File c)"
          using noaccess nounlink
            fs_unlink_post [OF refl, of tempPath "logged (Access tempPath) w1"]
          by (auto simp: logged_def)
        with w' post(2) show ?thesis by simp
      qed
    qed
  qed
qed

theorem downloadFile_temp_removed_witness:
  "nodes (snd (downloadFile examplePlatform ''u'' ''out.csv'' ''out.csv.tmp'' (Some 20)
                 (Some (respondWith ''a,b'')) quietWorld)) ''out.csv.tmp'' = None \<and>
   nodes (snd (downloadFile examplePlatform ''u'' ''out.csv'' ''out.csv.tmp'' (Some 20)
                 (Some throwingFetch)
                 (quietWorld\<lparr>nodes := [''out.csv.tmp'' \<mapsto> File ''stale'']\<rparr>))) ''out.csv.tmp'' = None"
proof -
  let ?stale = "quietWorld\<lparr>nodes := [''out.csv.tmp'' \<mapsto> File ''stale'']\<rparr>"
  let ?run1 = "downloadFile examplePlatform ''u'' ''out.csv'' ''out.csv.tmp'' (Some 20)
                 (Some (respondWith ''a,b'')) quietWorld"
  let ?run2 = "downloadFile examplePlatform ''u'' ''out.csv'' ''out.csv.tmp'' (Some 20)
                 (Some throwingFetch) ?stale"
  have a1: "resolve quietWorld ''out.csv.tmp'' \<noteq> resolve quietWorld ''out.csv''"
    by (simp add: quietWorld_def dropDotSlash_def)
  have b1: "\<forall>n. faults quietWorld n (Access ''out.csv.tmp'') = NoFault \<and>
      faults quietWorld n (Unlink ''out.csv.tmp'') = NoFault"
    by (simp add: quietWorld_def)
  have c1: "(\<forall>c. nodes quietWorld (resolve quietWorld ''out.csv.tmp'') \<noteq> Some (File c)) \<or>
      \<not> endsEarly (fetchOrDefault examplePlatform (Some (respondWith ''a,b''))
            (length (trace quietWorld)) ''u'')"
    by (simp add: quietWorld_def)
  have d1: "\<not> throwsUnprintable (fetchOrDefault examplePlatform (Some (respondWith ''a,b''))
            (length (trace quietWorld)) ''u'')"
    by (simp add: throwsUnprintable_def fetchOrDefault_def respondWith_def)
  have here1: "resolve quietWorld ''out.csv.tmp'' = ''out.csv.tmp''"
    by (simp add: quietWorld_def dropDotSlash_def)
  have nodir1: "nodes (snd ?run1) ''out.csv.tmp'' \<noteq> Some (Dir n)" for n
    by (simp add: run_defs io_defs fs_defs example_defs)
  from downloadFile_temp_removed [OF a1 b1 c1, of "Some 20"] d1
  have "\<forall>c. nodes (snd ?run1) ''out.csv.tmp'' \<noteq> Some (File c)"
    unfolding here1 by force
  with nodir1 have 1: "nodes (snd ?run1) ''out.csv.tmp'' = None"
    by (metis node.exhaust option.exhaust)
  have a2: "resolve ?stale ''out.csv.tmp'' \<noteq> resolve ?stale ''out.csv''"
    by (simp add: quietWorld_def dropDotSlash_def)
  have b2: "\<forall>n. faults ?stale n (Access ''out.csv.tmp'') = NoFault \<and>
      faults ?stale n (Unlink ''out.csv.tmp'') = NoFault"
    by (simp add: quietWorld_def)
  have c2: "(\<forall>c. nodes ?stale (resolve ?stale ''out.csv.tmp'') \<noteq> Some (File c)) \<or>
      \<not> endsEarly (fetchOrDefault examplePlatform (Some throwingFetch)
            (length (trace ?stale)) ''u'')"
    by (simp add: endsEarly_def fetchOrDefault_def throwingFetch_def)
  have d2: "\<not> throwsUnprintable (fetchOrDefault examplePlatform (Some throwingFetch)
            (length (trace ?stale)) ''u'')"
    by (simp add: throwsUnprintable_def fetchOrDefault_def throwingFetch_def)
  have here2: "resolve ?stale ''out.csv.tmp'' = ''out.csv.tmp''"
    by (simp add: quietWorld_def dropDotSlash_def)
  have nodir2: "nodes (snd ?run2) ''out.csv.tmp'' \<noteq> Some (Dir n)" for n
    by (simp add: run_defs io_defs fs_defs example_defs)
  from downloadFile_temp_removed [OF a2 b2 c2, of "Some 20"] d2
  have "\<forall>c. nodes (snd ?run2) ''out.csv.tmp'' \<noteq> Some (File c)"
    unfolding here2 by force
  with nodir2 have 2: "nodes (snd ?run2) ''out.csv.tmp'' = None"
    by (metis node.exhaust option.exhaust)
  from 1 2 show ?thesis ..
qed

text \<open>
  C8, as the claim states it, fails. With a temporary file in place and a transport
  that throws a value that cannot be converted to text, printing the value in the
  \<open>catch\<close> block throws before any cleanup: \<open>downloadFile\<close> throws and makes no
  attempt to delete the file. And when the rename fails after the temporary file was
  written and the existence check of the cleanup fails, the file counts as absent
  and no deletion is attempted.
\<close>

theorem downloadFile_cleanup_counterexample:
  "nodes (quietWorld\<lparr>nodes := [''out.csv.tmp'' \<mapsto> File ''stale'']\<rparr>) ''out.csv.tmp'' =
     Some (File ''stale'') \<and>
   downloadFile examplePlatform ''u'' ''out.csv'' ''out.csv.tmp'' (Some 20) (Some symbolFetch)
          (quietWorld\<lparr>nodes := [''out.csv.tmp'' \<mapsto> File ''stale'']\<rparr>) =
     (Inl (Error ''TypeError: Cannot convert a Symbol value to a string''),
      quietWorld\<lparr>nodes := [''out.csv.tmp'' \<mapsto> File ''stale''], trace := [Fetch ''u'']\<rparr>) \<and>
   fst (downloadFile examplePlatform ''u'' ''out.csv'' ''out.csv.tmp'' (Some 20)
          (Some (respondWith ''a,b''))
          (quietWorld\<lparr>faults := (\<lambda>n c. if c = Rename ''out.csv.tmp'' ''out.csv'' \<or>
                                           c = Access ''out.csv.tmp'' then Fails else NoFault)\<rparr>)) =
     Inr \<lparr>success = False, warning = None\<rparr> \<and>
   trace (snd (downloadFile examplePlatform ''u'' ''out.csv'' ''out.csv.tmp'' (Some 20)
          (Some (respondWith ''a,b''))
          (quietWorld\<lparr>faults := (\<lambda>n c. if c = Rename ''out.csv.tmp'' ''out.csv'' \<or>
                                           c = Access ''out.csv.tmp'' then Fails else NoFault)\<rparr>))) =
     [Fetch ''u'', ReadText, WriteFile ''out.csv.tmp'' ''a,b'', Stat ''out.csv.tmp'',
      Access ''out.csv'', Rename ''out.csv.tmp'' ''out.csv'', Access ''out.csv.tmp''] \<and>
   nodes (snd (downloadFile examplePlatform ''u'' ''out.csv'' ''out.csv.tmp'' (Some 20)
          (Some (respondWith ''a,b''))
          (quietWorld\<lparr>faults := (\<lambda>n c. if c = Rename ''out.csv.tmp'' ''out.csv'' \<or>
                                           c = Access ''out.csv.tmp'' then Fails else NoFault)\<rparr>)))
     ''out.csv.tmp'' = Some (File ''a,b'')"
  by (simp add: run_defs io_defs fs_defs example_defs)

text \<open>
  C8, amended. If the \<open>try\<close> block throws a value that converts to text, as every
  error of the file system does, \<open>downloadFile\<close> returns
  \<open>{success: false, warning: null}\<close> without throwing, whatever happens in the
  cleanup. If moreover the temporary path exists at that moment and the existence
  check does not fail, \<open>downloadFile\<close> calls \<open>unlink\<close> on it; when that \<open>unlink\<close>
  fails the files are left as they were.
\<close>

theorem downloadFile_cleanup_attempt:
  assumes "downloadFile_try P url outputPath tempPath (thresholdOrDefault P sizeChangeThreshold)
             (fetchOrDefault P fetchFn) w = (Inl (Error s), w1)"
  shows "\<exists>w'. downloadFile P url outputPath tempPath sizeChangeThreshold fetchFn w =
            (Inr \<lparr>success = False, warning = None\<rparr>, w') \<and>
          (nodes w1 (resolve w1 tempPath) \<noteq> None \<and>
           faults w1 (length (trace w1)) (Access tempPath) = NoFault \<longrightarrow>
             trace w' = trace w1 @ [Access tempPath, Unlink tempPath] \<and>
             (faults w1 (length (trace w1) + 1) (Unlink tempPath) \<noteq> NoFault \<longrightarrow>
                nodes w' = nodes w1))"
proof -
  let ?w2 = "if fault_of w1 (Access tempPath) \<noteq> NoFault \<or> nodes w1 (resolve w1 tempPath) = None
     then logged (Access tempPath) w1
     else snd (fs_unlink tempPath (logged (Access tempPath) w1))"
  have run: "downloadFile P url outputPath tempPath sizeChangeThreshold fetchFn w =
      (Inr \<lparr>success = False, warning = None\<rparr>, ?w2)"
    using assms
    by (simp add: downloadFile_def io_catch_def io_bind_def toText_def io_return_def
        downloadFile_cleanup_eq)
  have "nodes w1 (resolve w1 tempPath) \<noteq> None \<and>
      faults w1 (length (trace w1)) (Access tempPath) = NoFault \<longrightarrow>
        trace ?w2 = trace w1 @ [Access tempPath, Unlink tempPath] \<and>
        (faults w1 (length (trace w1) + 1) (Unlink tempPath) \<noteq> NoFault \<longrightarrow> nodes ?w2 = nodes w1)"
    using fs_unlink_post [OF refl, of tempPath "logged (Access tempPath) w1"]
    by (auto simp: fault_of_def logged_def)
  with run show ?thesis by blast
qed

theorem downloadFile_cleanup_attempt_witness:
  "fst (downloadFile examplePlatform ''u'' ''out.csv'' ''out.csv.tmp'' (Some 20)
          (Some (respondWith ''a,b''))
          (quietWorld\<lparr>faults := (\<lambda>n c. if c = Rename ''out.csv.tmp'' ''out.csv'' \<or>
                                           c = Unlink ''out.csv.tmp'' then Fails else NoFault)\<rparr>)) =
     Inr \<lparr>success = False, warning = None\<rparr> \<and>
   trace (snd (downloadFile examplePlatform ''u'' ''out.csv'' ''out.csv.tmp'' (Some 20)
          (Some (respondWith ''a,b''))
          (quietWorld\<lparr>faults := (\<lambda>n c. if c = Rename ''out.csv.tmp'' ''out.csv'' \<or>
                                           c = Unlink ''out.csv.tmp'' then Fails else NoFault)\<rparr>))) =
     [Fetch ''u'', ReadText, WriteFile ''out.csv.tmp'' ''a,b'', Stat ''out.csv.tmp'',
      Access ''out.csv'', Rename ''out.csv.tmp'' ''out.csv'',
      Access ''out.csv.tmp'', Unlink ''out.csv.tmp'']"
proof -
  let ?w = "quietWorld\<lparr>faults := (\<lambda>n c. if c = Rename ''out.csv.tmp'' ''out.csv'' \<or>
                                           c = Unlink ''out.csv.tmp'' then Fails else NoFault)\<rparr>"
  let ?attempt = "downloadFile_try examplePlatform ''u'' ''out.csv'' ''out.csv.tmp''
      (thresholdOrDefault examplePlatform (Some 20))
      (fetchOrDefault examplePlatform (Some (respondWith ''a,b''))) ?w"
  have thrown: "fst ?attempt = Inl (Error ''EIO'')"
    by (simp add: run_defs io_defs fs_defs example_defs)
  have tr: "trace (snd ?attempt) =
      [Fetch ''u'', ReadText, WriteFile ''out.csv.tmp'' ''a,b'', Stat ''out.csv.tmp'',
       Access ''out.csv'', Rename ''out.csv.tmp'' ''out.csv'']"
    by (simp add: run_defs io_defs fs_defs example_defs)
  have there: "nodes (snd ?attempt) (resolve (snd ?attempt) ''out.csv.tmp'') \<noteq> None"
    by (simp add: run_defs io_defs fs_defs example_defs)
  have found: "faults (snd ?attempt) (length (trace (snd ?attempt))) (Access ''out.csv.tmp'') = NoFault"
    by (simp add: run_defs io_defs fs_defs example_defs)
  have a: "?attempt = (Inl (Error ''EIO''), snd ?attempt)"
    using thrown by (simp add: prod_eq_iff)
  from downloadFile_cleanup_attempt [OF a] there found tr
  show ?thesis by force
qed

section \<open>Properties of the loop over the templates\<close>

lemma downloadTemplate_total:
  assumes "outputDir_val config = Some dir"
    and "\<forall>n u. \<not> throwsUnprintable (fetchFn n u)"
  shows "\<exists>r w'. downloadTemplate P config dateStr fetchFn t w =
       (Inr (path_join P dir (outputFile t), r), w') \<and>
     (\<forall>x. warning r = Some x \<longrightarrow> x \<noteq> [])"
proof -
  let ?out = "path_join P dir (outputFile t)"
  let ?url = "str_replace (str_replace (urlTemplate t) ''{baseUrl}''
      (case baseUrl_val config of None \<Rightarrow> ''undefined'' | Some b \<Rightarrow> b)) ''{0}'' dateStr"
  have "\<not> throwsUnprintable (fetchOrDefault P (Some fetchFn) (length (trace w)) ?url)"
    using assms(2) by (simp add: fetchOrDefault_def)
  from downloadFile_total [OF this, of ?out "?out @ ''.tmp''" "sizeChangeThresholdPercent_val config"]
  obtain r w' where "downloadFile P ?url ?out (?out @ ''.tmp'')
      (sizeChangeThresholdPercent_val config) (Some fetchFn) w = (Inr r, w')"
    and "\<forall>x. warning r = Some x \<longrightarrow> x \<noteq> []"
    by blast
  then show ?thesis
    using assms(1) by (simp add: downloadTemplate_def Let_def io_bind_def io_return_def)
qed

lemma length_templateResults:
  assumes "outputDir_val config = Some dir"
    and "\<forall>n u. \<not> throwsUnprintable (fetchFn n u)"
  shows "length (templateResults P config dateStr fetchFn ts w) = length ts"
proof (induction ts arbitrary: w)
  case Nil
  show ?case by simp
next
  case (Cons t ts)
  from downloadTemplate_total [OF assms, of P dateStr t w]
  obtain r w' where "downloadTemplate P config dateStr fetchFn t w =
      (Inr (path_join P dir (outputFile t), r), w')" by blast
  with Cons.IH [of w'] show ?case by simp
qed

lemma paths_templateResults:
  assumes "outputDir_val config = Some dir"
    and "\<forall>n u. \<not> throwsUnprintable (fetchFn n u)"
  shows "map fst (templateResults P config dateStr fetchFn ts w) =
     map (\<lambda>t. path_join P dir (outputFile t)) ts"
proof (induction ts arbitrary: w)
  case Nil
  show ?case by simp
next
  case (Cons t ts)
  from downloadTemplate_total [OF assms, of P dateStr t w]
  obtain r w' where "downloadTemplate P config dateStr fetchFn t w =
      (Inr (path_join P dir (outputFile t), r), w')" by blast
  with Cons.IH [of w'] show ?case by simp
qed

lemma processTemplates_lists:
  assumes "outputDir_val config = Some dir"
    and "\<forall>n u. \<not> throwsUnprintable (fetchFn n u)"
  shows "\<exists>w'. processTemplates P config dateStr fetchFn ts acc w =
     (Inr \<lparr>downloadedFiles = downloadedFiles acc @
             map fst (filter (\<lambda>(p, r). success r)
               (templateResults P config dateStr fetchFn ts w)),
           skippedFiles = skippedFiles acc @
             map (\<lambda>(t, p, r). outputFile t) (filter (\<lambda>(t, p, r). \<not> success r)
               (zip ts (templateResults P config dateStr fetchFn ts w))),
           fileSizeWarnings = fileSizeWarnings acc @
             concat (map (\<lambda>(p, r). if success r
                                    then (case warning r of None \<Rightarrow> [] | Some x \<Rightarrow> [x])
                                    else [])
               (templateResults P config dateStr fetchFn ts w))\<rparr>, w')"
proof (induction ts arbitrary: acc w)
  case Nil
  show ?case by simp
next
  case (Cons t ts)
  from downloadTemplate_total [OF assms, of P dateStr t w]
  obtain r w1 where step: "downloadTemplate P config dateStr fetchFn t w =
      (Inr (path_join P dir (outputFile t), r), w1)"
    and nonempty: "\<forall>x. warning r = Some x \<longrightarrow> x \<noteq> []" by blast
  from Cons.IH [of "recordOutcome acc t (path_join P dir (outputFile t)) r" w1]
  obtain w' where rest: "processTemplates P config dateStr fetchFn ts
      (recordOutcome acc t (path_join P dir (outputFile t)) r) w1 =
     (Inr \<lparr>downloadedFiles =
             downloadedFiles (recordOutcome acc t (path_join P dir (outputFile t)) r) @
             map fst (filter (\<lambda>(p, r). success r)
               (templateResults P config dateStr fetchFn ts w1)),
           skippedFiles =
             skippedFiles (recordOutcome acc t (path_join P dir (outputFile t)) r) @
             map (\<lambda>(t, p, r). outputFile t) (filter (\<lambda>(t, p, r). \<not> success r)
               (zip ts (templateResults P config dateStr fetchFn ts w1))),
           fileSizeWarnings =
             fileSizeWarnings (recordOutcome acc t (path_join P dir (outputFile t)) r) @
             concat (map (\<lambda>(p, r). if success r
                                    then (case warning r of None \<Rightarrow> [] | Some x \<Rightarrow> [x])
                                    else [])
               (templateResults P config dateStr fetchFn ts w1))\<rparr>, w')"
    by blast
  have whole: "processTemplates P config dateStr fetchFn (t # ts) acc w =
      processTemplates P config dateStr fetchFn ts
        (recordOutcome acc t (path_join P dir (outputFile t)) r) w1"
    by (simp add: step)
  have results: "templateResults P config dateStr fetchFn (t # ts) w =
      (path_join P dir (outputFile t), r) #
      templateResults P config dateStr fetchFn ts w1"
    by (simp add: step)
  show ?case
    unfolding whole rest results
    using nonempty
    by (intro exI [of _ w'])
       (auto simp: recordOutcome_def truthy_def split: option.splits)
qed

text \<open>
  C4, as the claim states it, fails. When the output directory is missing and cannot
  be created, \<open>fetchData\<close> throws before it processes any template; so it does when
  the date cannot be formatted. And when the transport throws a value that cannot be
  converted to text for one template, \<open>downloadFile\<close> throws, the loop ends there
  and the remaining templates are not processed.
\<close>

theorem fetchData_throws_counterexample:
  "fst (fetchData examplePlatform exampleOptions
          (quietWorld\<lparr>faults := (\<lambda>n c. if c = Mkdir ''/out'' then Fails else NoFault)\<rparr>)) =
     Inl (Error ''EIO'') \<and>
   trace (snd (fetchData examplePlatform exampleOptions
          (quietWorld\<lparr>faults := (\<lambda>n c. if c = Mkdir ''/out'' then Fails else NoFault)\<rparr>))) =
     [Access ''/out'', Mkdir ''/out''] \<and>
   fst (fetchData (examplePlatform\<lparr>format_date := (\<lambda>d pattern. Inl (Error ''RangeError''))\<rparr>)
          exampleOptions quietWorld) =
     Inl (Error ''RangeError'') \<and>
   fst (fetchData examplePlatform (exampleOptions\<lparr>opt_fetchFn := Some symbolFetch\<rparr>) quietWorld) =
     Inl (Error ''TypeError: Cannot convert a Symbol value to a string'') \<and>
   trace (snd (fetchData examplePlatform (exampleOptions\<lparr>opt_fetchFn := Some symbolFetch\<rparr>)
          quietWorld)) =
     [Access ''/out'', Mkdir ''/out'', Fetch ''http://host/a20240101.csv'']"
  by (simp add: fetchData_def ensureOutputDir_def mergeConfig_def spreadKey_def DEFAULT_CONFIG_def
      exampleOptions_def downloadTemplate_def str_replace_def Let_def
      run_defs io_defs fs_defs example_defs)

text \<open>
  C4, amended. Whenever the output directory is there or can be created, the date
  can be formatted, and the transport throws no value without conversion to text,
  \<open>fetchData\<close> returns, and every template of the list has been processed, in
  order, whatever its predecessors came to: there is one outcome per template, for
  its output path. The downloaded list holds the output paths of the successes, the
  skipped list the file names of the failures, the warning list the warnings of the
  successes that have one; the lengths of the downloaded and the skipped list add up
  to the number of templates.
\<close>

theorem fetchData_partition:
  assumes "config = mergeConfig (DEFAULT_CONFIG P) (opt_config options)"
    and "templates = (case opt_urlTemplates options of
                        Some ts \<Rightarrow> ts | None \<Rightarrow> DEFAULT_URL_TEMPLATES)"
    and "fetchFn = (case opt_fetchFn options of Some f \<Rightarrow> f | None \<Rightarrow> global_fetch P)"
    and "date = (case opt_date options of Some d \<Rightarrow> d | None \<Rightarrow> now w)"
    and "ensureOutputDir (outputDir_val config) w = (Inr (), w0)"
    and "format_date P date (dateFormat_val config) = Inr dateStr"
    and "\<forall>n u. \<not> throwsUnprintable (fetchFn n u)"
    and "rs = templateResults P config dateStr fetchFn templates w0"
  shows "\<exists>result w' dir. fetchData P options w = (Inr result, w') \<and>
     length rs = length templates \<and>
     outputDir_val config = Some dir \<and>
     map fst rs = map (\<lambda>t. path_join P dir (outputFile t)) templates \<and>
     downloadedFiles result = map fst (filter (\<lambda>(p, r). success r) rs) \<and>
     skippedFiles result =
       map (\<lambda>(t, p, r). outputFile t) (filter (\<lambda>(t, p, r). \<not> success r) (zip templates rs)) \<and>
     fileSizeWarnings result =
       concat (map (\<lambda>(p, r). if success r
                              then (case warning r of None \<Rightarrow> [] | Some x \<Rightarrow> [x])
                              else []) rs) \<and>
     length (downloadedFiles result) + length (skippedFiles result) = length templates"
proof -
  let ?empty = "\<lparr>downloadedFiles = [], skippedFiles = [], fileSizeWarnings = []\<rparr>"
  obtain dir where dir: "outputDir_val config = Some dir"
    using assms(5) by (cases "outputDir_val config") (auto simp: ensureOutputDir_def io_throw_def)
  from processTemplates_lists [OF dir assms(7), of P dateStr templates ?empty w0]
  obtain w' where loop: "processTemplates P config dateStr fetchFn templates ?empty w0 =
     (Inr \<lparr>downloadedFiles = map fst (filter (\<lambda>(p, r). success r) rs),
           skippedFiles = map (\<lambda>(t, p, r). outputFile t)
             (filter (\<lambda>(t, p, r). \<not> success r) (zip templates rs)),
           fileSizeWarnings = concat (map (\<lambda>(p, r). if success r
                              then (case warning r of None \<Rightarrow> [] | Some x \<Rightarrow> [x])
                              else []) rs)\<rparr>, w')"
    unfolding assms(8) by auto
  have run: "fetchData P options w =
      processTemplates P config dateStr fetchFn templates ?empty w0"
    using assms(5,6)
    by (simp add: fetchData_def Let_def io_bind_def
        assms(1) [symmetric] assms(2) [symmetric] assms(3) [symmetric] assms(4) [symmetric])
  have len: "length rs = length templates"
    unfolding assms(8) by (rule length_templateResults [OF dir assms(7)])
  have count: "length (filter (\<lambda>(p, r). success r) rs) +
      length (filter (\<lambda>(t, p, r). \<not> success r) (zip templates rs)) = length templates"
    using len
  proof (induction templates rs rule: list_induct2')
    case (4 t ts r rs)
    then show ?case by (cases r) auto
  qed simp_all
  show ?thesis
    unfolding run loop
    using len count dir paths_templateResults [OF dir assms(7), of P dateStr templates w0]
    by (simp add: assms(8))
qed

theorem fetchData_partition_witness:
  "\<exists>result w'. fetchData examplePlatform exampleOptions quietWorld = (Inr result, w') \<and>
     downloadedFiles result = [''/out/a.csv''] \<and>
     skippedFiles result = [''b.csv''] \<and>
     fileSizeWarnings result = [] \<and>
     length (downloadedFiles result) + length (skippedFiles result) = 2"
proof -
  let ?config = "mergeConfig (DEFAULT_CONFIG examplePlatform) (opt_config exampleOptions)"
  let ?w0 = "snd (ensureOutputDir (Some ''/out'') quietWorld)"
  have config: "?config = \<lparr>outputDir_val = Some ''/out'', sizeChangeThresholdPercent_val = Some 20,
      baseUrl_val = Some ''http://host'', dateFormat_val = Some ''yyyyMMdd''\<rparr>"
    by (simp add: mergeConfig_def spreadKey_def DEFAULT_CONFIG_def exampleOptions_def)
  have w0: "?w0 = \<lparr>resolve = dropDotSlash, nodes = [''/out'' \<mapsto> Dir 4096],
      trace = [Access ''/out'', Mkdir ''/out''],
      faults = (\<lambda>n c. NoFault), now = 0\<rparr>"
    by (simp add: ensureOutputDir_def io_defs fs_defs quietWorld_def dropDotSlash_def)
  have dir: "ensureOutputDir (outputDir_val ?config) quietWorld = (Inr (), ?w0)"
    unfolding config
    by (simp add: ensureOutputDir_def io_defs fs_defs quietWorld_def dropDotSlash_def)
  have fmt: "format_date examplePlatform
      (case opt_date exampleOptions of Some d \<Rightarrow> d | None \<Rightarrow> now quietWorld)
      (dateFormat_val ?config) = Inr ''20240101''"
    by (simp add: examplePlatform_def)
  have printable: "\<forall>n u. \<not> throwsUnprintable
      ((case opt_fetchFn exampleOptions of Some f \<Rightarrow> f | None \<Rightarrow> global_fetch examplePlatform) n u)"
    by (simp add: exampleOptions_def selectiveFetch_def throwsUnprintable_def)
  have rs: "templateResults examplePlatform ?config ''20240101''
      (case opt_fetchFn exampleOptions of Some f \<Rightarrow> f | None \<Rightarrow> global_fetch examplePlatform)
      (case opt_urlTemplates exampleOptions of Some ts \<Rightarrow> ts | None \<Rightarrow> DEFAULT_URL_TEMPLATES)
      ?w0 =
      [(''/out/a.csv'', \<lparr>success = True, warning = None\<rparr>),
       (''/out/b.csv'', \<lparr>success = False, warning = None\<rparr>)]"
    unfolding config w0
    by (simp add: exampleOptions_def downloadTemplate_def selectiveFetch_def str_replace_def
        run_defs io_defs fs_defs examplePlatform_def dropDotSlash_def Let_def)
  from fetchData_partition [OF refl refl refl refl dir fmt printable refl]
  obtain result w' where "fetchData examplePlatform exampleOptions quietWorld = (Inr result, w')"
    and "downloadedFiles result = [''/out/a.csv'']"
    and "skippedFiles result = [''b.csv'']"
    and "fileSizeWarnings result = []"
    and "length (downloadedFiles result) + length (skippedFiles result) = 2"
    unfolding rs by (auto simp: exampleOptions_def)
  then show ?thesis by blast
qed

end
